theory Spec2Isabelle
  imports Complex_Main "HOL-Library.Word" "HOL-Library.Sublist" "HOL-Library.Code_Target_Nat"
begin

section \<open>JavaScript values\<close>

text \<open>
  A JavaScript string is a sequence of UTF-16 code units. ASCII literals of the source are
  written \<open>js ''...''\<close>; the Hangul literals are written as their code units.
\<close>

type_synonym jsstring = "16 word list"

definition js :: "string \<Rightarrow> jsstring" where
  "js s = map of_char s"

text \<open>
  A number is a double: not-a-number, an infinity, or a finite value, kept as the rational
  it denotes (negative zero is zero: nothing below tells them apart).
\<close>

datatype jsnumber = NaN | PosInfinity | NegInfinity | Finite rat

definition truthyNum :: "jsnumber \<Rightarrow> bool" where
  "truthyNum x = (x \<noteq> NaN \<and> x \<noteq> Finite 0)"

text \<open>
  The values that reach the program from outside are JSON documents (the actor input, the
  HTTP response bodies), plus \<open>undefined\<close> for an absent property. An object is the list of
  its own properties; none of them is callable.
\<close>

datatype json =
    JUndefined
  | JNull
  | JBool bool
  | JNum jsnumber
  | JStr jsstring
  | JArr "json list"
  | JObj "(jsstring \<times> json) list"

datatype js_error = TypeError jsstring | Error jsstring

fun message :: "js_error \<Rightarrow> jsstring" where
  "message (TypeError m) = m"
| "message (Error m) = m"

definition bindE :: "'e + 'a \<Rightarrow> ('a \<Rightarrow> 'e + 'b) \<Rightarrow> 'e + 'b" where
  "bindE m f = (case m of Inl e \<Rightarrow> Inl e | Inr x \<Rightarrow> f x)"

fun truthy :: "json \<Rightarrow> bool" where
  "truthy JUndefined = False"
| "truthy JNull = False"
| "truthy (JBool b) = b"
| "truthy (JNum x) = truthyNum x"
| "truthy (JStr s) = (s \<noteq> [])"
| "truthy (JArr xs) = True"
| "truthy (JObj kvs) = True"

text \<open>\<open>a || b\<close> on values.\<close>

definition orElse :: "json \<Rightarrow> json \<Rightarrow> json" where
  "orElse a b = (if truthy a then a else b)"

text \<open>
  \<open>v.k\<close> for a value that is neither \<open>null\<close> nor \<open>undefined\<close>, and a key \<open>k\<close> that no
  built-in prototype defines (every key the program reads but \<open>length\<close>): an own property
  of an object, \<open>undefined\<close> otherwise.
\<close>

definition getProp :: "json \<Rightarrow> jsstring \<Rightarrow> json" where
  "getProp v k = (case v of
       JObj kvs \<Rightarrow> (case map_of kvs k of Some x \<Rightarrow> x | None \<Rightarrow> JUndefined)
     | _ \<Rightarrow> JUndefined)"

text \<open>\<open>v.k\<close> in general: reading a property of \<open>null\<close> or \<open>undefined\<close> throws.\<close>

definition readProp :: "json \<Rightarrow> jsstring \<Rightarrow> js_error + json" where
  "readProp v k =
     (if v = JNull then
        Inl (TypeError (js ''Cannot read properties of null (reading '' @ [0x27] @ k @ [0x27] @ js '')''))
      else if v = JUndefined then
        Inl (TypeError (js ''Cannot read properties of undefined (reading '' @ [0x27] @ k @ [0x27] @ js '')''))
      else Inr (getProp v k))"

subsection \<open>Strings\<close>

text \<open>\<open>String.prototype.includes\<close>: the argument occurs as a contiguous run of code units.\<close>

fun includes_str :: "jsstring \<Rightarrow> jsstring \<Rightarrow> bool" where
  "includes_str [] k = (k = [])"
| "includes_str (c # cs) k = (prefix k (c # cs) \<or> includes_str cs k)"

text \<open>White space and line terminators, as \<open>trim\<close> and \<open>parseInt\<close> strip them.\<close>

definition isWhiteSpace :: "16 word \<Rightarrow> bool" where
  "isWhiteSpace c \<longleftrightarrow>
     c = 0x9 \<or> c = 0xA \<or> c = 0xB \<or> c = 0xC \<or> c = 0xD \<or> c = 0x20 \<or> c = 0xA0 \<or>
     c = 0x1680 \<or> (0x2000 \<le> c \<and> c \<le> 0x200A) \<or> c = 0x2028 \<or> c = 0x2029 \<or>
     c = 0x202F \<or> c = 0x205F \<or> c = 0x3000 \<or> c = 0xFEFF"

definition trim :: "jsstring \<Rightarrow> jsstring" where
  "trim s = rev (dropWhile isWhiteSpace (rev (dropWhile isWhiteSpace s)))"

fun showNat :: "nat \<Rightarrow> jsstring" where
  "showNat n = (if n < 10 then [of_nat (48 + n)]
                else showNat (n div 10) @ [of_nat (48 + n mod 10)])"

declare showNat.simps [simp del]

definition showInt :: "int \<Rightarrow> jsstring" where
  "showInt i = (if i < 0 then 0x2D # showNat (nat (- i)) else showNat (nat i))"

fun joinWith :: "jsstring \<Rightarrow> jsstring list \<Rightarrow> jsstring" where
  "joinWith sep [] = []"
| "joinWith sep [x] = x"
| "joinWith sep (x # y # ys) = x @ sep @ joinWith sep (y # ys)"

subsection \<open>The platform\<close>

text \<open>
  What the program takes from the platform: \<open>String.prototype.toLowerCase\<close> (the Unicode
  case mapping), \<open>parseFloat\<close> on a string, the text of a number (\<open>Number::toString\<close>:
  the shortest digits that read back as the same double, in exponent form from \<open>10^21\<close>)
  and the clock reading \<open>new Date().toISOString()\<close>. They are parameters: every theorem
  holds for each choice.
\<close>

record js_platform =
  toLowerCase :: "jsstring \<Rightarrow> jsstring"
  parseFloat :: "jsstring \<Rightarrow> jsnumber"
  numberToString :: "jsnumber \<Rightarrow> jsstring"
  now :: jsstring

subsection \<open>ToString\<close>

text \<open>The first exception of a sequence of conversions, or all their results.\<close>

fun sequenceE :: "('e + 'a) list \<Rightarrow> 'e + 'a list" where
  "sequenceE [] = Inr []"
| "sequenceE (Inl e # rs) = Inl e"
| "sequenceE (Inr x # rs) = (case sequenceE rs of Inl e \<Rightarrow> Inl e | Inr xs \<Rightarrow> Inr (x # xs))"

text \<open>
  \<open>ToString\<close>, as a template literal, \<open>parseInt\<close> and \<open>parseFloat\<close> apply it. An array
  is joined with commas, \<open>null\<close> and \<open>undefined\<close> elements giving the empty string. An
  object is converted by the first callable of its \<open>toString\<close> and \<open>valueOf\<close> that
  returns a primitive: without an own \<open>toString\<close> property that is
  \<open>Object.prototype.toString\<close>; with one, which hides the inherited method and is not
  callable, neither \<open>toString\<close> nor \<open>valueOf\<close> (own, or the inherited one, which returns
  the object) gives a primitive, and the conversion throws.
\<close>

fun toStringJS :: "js_platform \<Rightarrow> json \<Rightarrow> js_error + jsstring" where
  "toStringJS P JUndefined = Inr (js ''undefined'')"
| "toStringJS P JNull = Inr (js ''null'')"
| "toStringJS P (JBool b) = Inr (if b then js ''true'' else js ''false'')"
| "toStringJS P (JNum x) = Inr (numberToString P x)"
| "toStringJS P (JStr s) = Inr s"
| "toStringJS P (JArr xs) =
     (case sequenceE
             (map (\<lambda>x. if x = JNull \<or> x = JUndefined then Inr [] else toStringJS P x) xs) of
        Inl e \<Rightarrow> Inl e
      | Inr parts \<Rightarrow> Inr (joinWith (js '','') parts))"
| "toStringJS P (JObj kvs) =
     (if js ''toString'' \<in> fst ` set kvs
      then Inl (TypeError (js ''Cannot convert object to primitive value''))
      else Inr (js ''[object Object]''))"

subsection \<open>parseInt\<close>

text \<open>
  \<open>parseInt(s)\<close> without a radix: leading white space is dropped, then a sign, then a
  \<open>0x\<close>/\<open>0X\<close> prefix (which selects radix 16); the longest run of digits of the radix is
  read, and no digit at all gives \<open>NaN\<close>. The result is the double nearest to the integer
  read, ties to the even significand, and an infinity beyond the range of the doubles (so
  V8 computes it; the standard also allows the digits after the twentieth to be read as
  zeros).
\<close>

definition digitVal :: "16 word \<Rightarrow> nat" where
  "digitVal c =
     (if 0x30 \<le> c \<and> c \<le> 0x39 then unat c - 48
      else if 0x61 \<le> c \<and> c \<le> 0x66 then unat c - 87
      else if 0x41 \<le> c \<and> c \<le> 0x46 then unat c - 55
      else 36)"

definition isDigit :: "nat \<Rightarrow> 16 word \<Rightarrow> bool" where
  "isDigit radix c \<longleftrightarrow> digitVal c < radix"

definition digitsValue :: "nat \<Rightarrow> jsstring \<Rightarrow> nat" where
  "digitsValue radix z = foldl (\<lambda>a c. a * radix + digitVal c) 0 z"

fun bitLength :: "nat \<Rightarrow> nat" where
  "bitLength n = (if n = 0 then 0 else Suc (bitLength (n div 2)))"

declare bitLength.simps [simp del]

text \<open>
  Every integer below \<open>2^53\<close> in magnitude is a double; a rounded value of \<open>2^1024\<close> or more
  is out of range.
\<close>

definition exactBelow :: nat where
  "exactBelow = 2 ^ 53"

definition overflowFrom :: nat where
  "overflowFrom = 2 ^ 1024"

text \<open>The magnitude rounded to 53 significant bits, ties to the even significand.\<close>

definition roundedMagnitude :: "nat \<Rightarrow> nat" where
  "roundedMagnitude a =
     (if a < exactBelow then a
      else
        let e = bitLength a - 53;
            q = a div 2 ^ e;
            r = a mod 2 ^ e;
            half = 2 ^ (e - 1);
            q' = (if half < r \<or> (r = half \<and> odd q) then q + 1 else q)
        in q' * 2 ^ e)"

definition roundToDouble :: "int \<Rightarrow> jsnumber" where
  "roundToDouble n =
     (let v = roundedMagnitude (nat \<bar>n\<bar>) in
      if overflowFrom \<le> v then (if n < 0 then NegInfinity else PosInfinity)
      else Finite (of_int (if n < 0 then - int v else int v)))"

definition parseInt :: "jsstring \<Rightarrow> jsnumber" where
  "parseInt s =
     (let s1 = dropWhile isWhiteSpace s;
          neg = (take 1 s1 = [0x2D]);
          s2 = (if take 1 s1 = [0x2D] \<or> take 1 s1 = [0x2B] then drop 1 s1 else s1);
          hex = (take 2 s2 = js ''0x'' \<or> take 2 s2 = js ''0X'');
          radix = (if hex then 16 else 10);
          s3 = (if hex then drop 2 s2 else s2);
          z = takeWhile (isDigit radix) s3
      in if z = [] then NaN
         else roundToDouble ((if neg then - 1 else 1) * int (digitsValue radix z)))"

subsection \<open>Arithmetic on numbers\<close>

text \<open>\<open>x || d\<close> on numbers: \<open>NaN\<close> and zero are falsy.\<close>

definition orDefault :: "jsnumber \<Rightarrow> jsnumber \<Rightarrow> jsnumber" where
  "orDefault x d = (if truthyNum x then x else d)"

text \<open>\<open>a < b\<close>, and \<open>Math.max\<close> and \<open>Math.min\<close> of two numbers.\<close>

fun numLess :: "jsnumber \<Rightarrow> jsnumber \<Rightarrow> bool" where
  "numLess NaN y = False"
| "numLess x NaN = False"
| "numLess PosInfinity y = False"
| "numLess x NegInfinity = False"
| "numLess NegInfinity y = True"
| "numLess (Finite a) PosInfinity = True"
| "numLess (Finite a) (Finite b) = (a < b)"

definition mathMax :: "jsnumber \<Rightarrow> jsnumber \<Rightarrow> jsnumber" where
  "mathMax a b = (if a = NaN \<or> b = NaN then NaN else if numLess a b then b else a)"

definition mathMin :: "jsnumber \<Rightarrow> jsnumber \<Rightarrow> jsnumber" where
  "mathMin a b = (if a = NaN \<or> b = NaN then NaN else if numLess b a then b else a)"

section \<open>Input validation (validateInput)\<close>

record configuration =
  searchKeyword :: jsstring
  vwCd :: jsstring
  parentId :: jsstring
  maxItems :: jsnumber
  includeMetadata :: bool
  outputFormat :: jsstring
  delayBetweenRequests :: jsnumber

text \<open>
  \<open>input.f?.trim() || d\<close>: the optional chain stops at \<open>null\<close> and \<open>undefined\<close> only, so
  any other value that is not a string is called as if it had a \<open>trim\<close> method.
\<close>

fun trimOr :: "jsstring \<Rightarrow> json \<Rightarrow> jsstring \<Rightarrow> js_error + jsstring" where
  "trimOr f JUndefined d = Inr d"
| "trimOr f JNull d = Inr d"
| "trimOr f (JStr s) d = Inr (if trim s = [] then d else trim s)"
| "trimOr f v d = Inl (TypeError (js ''input.'' @ f @ js ''?.trim is not a function''))"

text \<open>
  The fields of the result are evaluated in the order they are written; \<open>parseInt\<close>
  converts its argument to a string first, which throws for some objects.
\<close>

definition validateInput :: "js_platform \<Rightarrow> json \<Rightarrow> js_error + configuration" where
  "validateInput P input =
     bindE (readProp input (js ''searchKeyword'')) (\<lambda>kw.
     bindE (trimOr (js ''searchKeyword'') kw []) (\<lambda>searchKeyword'.
     bindE (trimOr (js ''vwCd'') (getProp input (js ''vwCd'')) (js ''MT_ZTITLE'')) (\<lambda>vwCd'.
     bindE (trimOr (js ''parentId'') (getProp input (js ''parentId'')) (js ''A'')) (\<lambda>parentId'.
     bindE (toStringJS P (getProp input (js ''maxItems''))) (\<lambda>maxItemsText.
     bindE (toStringJS P (getProp input (js ''delayBetweenRequests''))) (\<lambda>delayText.
       Inr \<lparr> searchKeyword = searchKeyword',
             vwCd = vwCd',
             parentId = parentId',
             maxItems =
               mathMin (mathMax (orDefault (parseInt maxItemsText) (Finite 10)) (Finite 1)) (Finite 100),
             includeMetadata = (getProp input (js ''includeMetadata'') \<noteq> JBool False),
             outputFormat =
               (case getProp input (js ''outputFormat'') of
                  JStr s \<Rightarrow> if s \<in> set [js ''structured'', js ''raw'', js ''both''] then s
                            else js ''structured''
                | _ \<Rightarrow> js ''structured''),
             delayBetweenRequests =
               mathMax (orDefault (parseInt delayText) (Finite 1000)) (Finite 500)
           \<rparr>))))))"

section \<open>Topic classification (determineDataType)\<close>

text \<open>
  The Hangul keywords, in the order of the source: in-gu; gyeong-je, gyeong-je-seong-jang;
  no-dong, go-yong, chwi-eop; san-eop, je-jo-eop; gyo-yuk, hak-gyo; ui-ryo, bo-geon,
  geon-gang; hwan-gyeong, o-yeom; ju-taek, bu-dong-san; so-deuk, so-bi, ga-gye; mul-ga,
  ga-gyeok.
\<close>

definition determineDataType :: "js_platform \<Rightarrow> json \<Rightarrow> js_error + jsstring" where
  "determineDataType P statName =
     (case statName of
        JStr s \<Rightarrow>
          (let name = toLowerCase P s in
           if includes_str name [0xC778, 0xAD6C] \<or> includes_str name (js ''population'')
             then Inr (js ''population'')
           else if includes_str name [0xACBD, 0xC81C] \<or> includes_str name (js ''gdp'')
                   \<or> includes_str name [0xACBD, 0xC81C, 0xC131, 0xC7A5]
             then Inr (js ''economic'')
           else if includes_str name [0xB178, 0xB3D9] \<or> includes_str name [0xACE0, 0xC6A9]
                   \<or> includes_str name [0xCDE8, 0xC5C5]
             then Inr (js ''labor'')
           else if includes_str name [0xC0B0, 0xC5C5] \<or> includes_str name [0xC81C, 0xC870, 0xC5C5]
             then Inr (js ''industry'')
           else if includes_str name [0xAD50, 0xC721] \<or> includes_str name [0xD559, 0xAD50]
             then Inr (js ''education'')
           else if includes_str name [0xC758, 0xB8CC] \<or> includes_str name [0xBCF4, 0xAC74]
                   \<or> includes_str name [0xAC74, 0xAC15]
             then Inr (js ''health'')
           else if includes_str name [0xD658, 0xACBD] \<or> includes_str name [0xC624, 0xC5FC]
             then Inr (js ''environment'')
           else if includes_str name [0xC8FC, 0xD0DD] \<or> includes_str name [0xBD80, 0xB3D9, 0xC0B0]
             then Inr (js ''housing'')
           else if includes_str name [0xC18C, 0xB4DD] \<or> includes_str name [0xC18C, 0xBE44]
                   \<or> includes_str name [0xAC00, 0xACC4]
             then Inr (js ''income'')
           else if includes_str name [0xBB3C, 0xAC00] \<or> includes_str name [0xAC00, 0xACA9]
             then Inr (js ''prices'')
           else Inr (js ''general''))
      | _ \<Rightarrow> Inl (TypeError (js ''statName.toLowerCase is not a function'')))"

section \<open>Normalization (normalizeStatisticalData)\<close>

record normalized_record =
  statName :: json
  surveyDate :: json
  region :: json
  category1 :: json
  category2 :: json
  valueNum :: jsnumber
  unitName :: json
  sourceTableId :: json
  dataType :: jsstring
  lastUpdated :: json
  metadata :: json
  extractedAt :: jsstring

text \<open>
  \<open>item.C1_NM && item.C1_NM.includes(k) ? item.C1_NM : 'Korea'\<close>, with \<open>k\<close> the
  keyword ji-yeok (region): a string is searched for the keyword, an array for an element
  equal to it, and any other truthy value has no \<open>includes\<close> to call.
\<close>

definition regionOf :: "json \<Rightarrow> js_error + json" where
  "regionOf c1 =
     (if \<not> truthy c1 then Inr (JStr (js ''Korea''))
      else case c1 of
          JStr s \<Rightarrow> Inr (if includes_str s [0xC9C0, 0xC5ED] then c1 else JStr (js ''Korea''))
        | JArr xs \<Rightarrow> Inr (if JStr [0xC9C0, 0xC5ED] \<in> set xs then c1 else JStr (js ''Korea''))
        | _ \<Rightarrow> Inl (TypeError (js ''item.C1_NM.includes is not a function'')))"

text \<open>The body of the \<open>forEach\<close> callback: one row to one record, or the exception it throws.\<close>

definition normalizeItem :: "js_platform \<Rightarrow> json \<Rightarrow> json \<Rightarrow> js_error + normalized_record" where
  "normalizeItem P srcId item =
     bindE (readProp item (js ''TBL_NM'')) (\<lambda>tblNm.
     bindE (toStringJS P (getProp item (js ''DT''))) (\<lambda>dtText.
       let name = orElse tblNm (JStr (js ''Unknown Statistic''));
           parsed = parseFloat P dtText;
           val = (if truthyNum parsed then parsed else Finite 0);
           unit' = orElse (getProp item (js ''UNIT_NM'')) (JStr []);
           period = orElse (getProp item (js ''PRD_DE'')) (JStr (js ''Unknown Period''));
           cat1 = orElse (orElse (getProp item (js ''C1_NM'')) (getProp item (js ''ITM_NM'')))
                         (JStr (js ''General''));
           cat2 = orElse (getProp item (js ''C2_NM'')) (JStr [])
       in
       bindE (regionOf (getProp item (js ''C1_NM''))) (\<lambda>region'.
       bindE (determineDataType P name) (\<lambda>dataType'.
         Inr \<lparr> statName = name,
               surveyDate = period,
               region = region',
               category1 = cat1,
               category2 = cat2,
               valueNum = val,
               unitName = unit',
               sourceTableId = srcId,
               dataType = dataType',
               lastUpdated = orElse (getProp item (js ''LST_CHN_DE'')) (JStr (now P)),
               metadata = JObj
                 [(js ''tableTitle'', name),
                  (js ''categories'', JObj
                     [(js ''c1'', getProp item (js ''C1_NM'')),
                      (js ''c2'', getProp item (js ''C2_NM'')),
                      (js ''c3'', getProp item (js ''C3_NM'')),
                      (js ''item'', getProp item (js ''ITM_NM''))]),
                  (js ''originalData'', item)],
               extractedAt = now P \<rparr>))))"

text \<open>
  The \<open>forEach\<close> loop: each record is pushed onto \<open>normalizedData\<close> as it is made, and an
  exception leaves the loop with the records pushed so far.
\<close>

fun normalizeRows ::
  "js_platform \<Rightarrow> json \<Rightarrow> json list \<Rightarrow> normalized_record list
     \<Rightarrow> js_error option \<times> normalized_record list" where
  "normalizeRows P srcId [] acc = (None, acc)"
| "normalizeRows P srcId (item # items) acc =
     (case normalizeItem P srcId item of
        Inl e \<Rightarrow> (Some e, acc)
      | Inr r \<Rightarrow> normalizeRows P srcId items (acc @ [r]))"

text \<open>The record pushed by the \<open>catch\<close> block.\<close>

definition errorRecord :: "js_platform \<Rightarrow> json \<Rightarrow> jsstring \<Rightarrow> json \<Rightarrow> normalized_record" where
  "errorRecord P srcId msg rawData =
     \<lparr> statName = JStr (js ''Error Processing Data''),
       surveyDate = JStr (js ''Unknown Date''),
       region = JStr (js ''Korea''),
       category1 = JStr (js ''Error''),
       category2 = JStr [],
       valueNum = Finite 0,
       unitName = JStr [],
       sourceTableId = srcId,
       dataType = js ''error'',
       lastUpdated = JStr (now P),
       metadata = JObj [(js ''error'', JStr msg), (js ''rawData'', rawData)],
       extractedAt = now P \<rparr>"

text \<open>
  \<open>normalizeStatisticalData(rawData, metadata, sourceTableId)\<close>. The variable \<open>rawData\<close>
  is reassigned to the one-element array when it is not an array, so that is what the
  \<open>catch\<close> block stores. The parameter \<open>metadata\<close> is not used by the source.
\<close>

definition normalizeStatisticalData ::
  "js_platform \<Rightarrow> json \<Rightarrow> json \<Rightarrow> json \<Rightarrow> normalized_record list" where
  "normalizeStatisticalData P rawData meta srcId =
     (let rows = (case rawData of JArr xs \<Rightarrow> xs | _ \<Rightarrow> [rawData]) in
      case normalizeRows P srcId rows [] of
        (None, normalizedData) \<Rightarrow> normalizedData
      | (Some e, normalizedData) \<Rightarrow>
          normalizedData @ [errorRecord P srcId (message e) (JArr rows)])"

section \<open>The HTTP client (handleApiError, getStatsList, getStatsData, getMetaInfo)\<close>

text \<open>
  What \<open>apiClient.get\<close> does: it resolves with a response body, or rejects with an error
  that carries the server's response (status and body), or only the request (no response
  came), or neither (the request could not be set up). An \<open>Error\<close> thrown inside the
  \<open>try\<close> block is caught by the same handler and carries neither.
\<close>

datatype axios_error =
    WithResponse json json
  | NoResponse
  | PlainError jsstring

datatype axios_result = Resolved json | Rejected axios_error

text \<open>\<open>data?.k\<close>\<close>

definition optProp :: "json \<Rightarrow> jsstring \<Rightarrow> json" where
  "optProp v k = (if v = JNull \<or> v = JUndefined then JUndefined else getProp v k)"

text \<open>\<open>data?.message || data?.error || 'Unknown API error'\<close>\<close>

definition apiErrorMsgOf :: "json \<Rightarrow> json" where
  "apiErrorMsgOf body =
     orElse (orElse (optProp body (js ''message'')) (optProp body (js ''error'')))
            (JStr (js ''Unknown API error''))"

text \<open>
  \<open>handleApiError\<close> always throws; the model returns the error it throws. The template
  literal of the first branch converts the status and then the provider's message to
  strings, and an exception of either conversion is what is thrown instead.
\<close>

definition handleApiError :: "js_platform \<Rightarrow> axios_error \<Rightarrow> jsstring \<Rightarrow> js_error" where
  "handleApiError P err ctx =
     (case err of
        WithResponse status body \<Rightarrow>
          (case toStringJS P status of
             Inl e \<Rightarrow> e
           | Inr statusText \<Rightarrow>
               (case toStringJS P (apiErrorMsgOf body) of
                  Inl e \<Rightarrow> e
                | Inr msgText \<Rightarrow>
                    Error (js ''KOSIS API Error ('' @ ctx @ js ''): Status '' @ statusText
                             @ js '' - '' @ msgText)))
      | NoResponse \<Rightarrow>
          Error (js ''KOSIS API Error ('' @ ctx @ js ''): No response received from server.'')
      | PlainError m \<Rightarrow>
          Error (js ''KOSIS API Error ('' @ ctx @ js ''): '' @ m))"

definition isArray :: "json \<Rightarrow> bool" where
  "isArray v = (case v of JArr xs \<Rightarrow> True | _ \<Rightarrow> False)"

text \<open>\<open>v.length\<close> for a value that is neither \<open>null\<close> nor \<open>undefined\<close>.\<close>

definition lengthProp :: "json \<Rightarrow> json" where
  "lengthProp v = (case v of
       JArr xs \<Rightarrow> JNum (Finite (of_nat (length xs)))
     | JStr s \<Rightarrow> JNum (Finite (of_nat (length s)))
     | _ \<Rightarrow> getProp v (js ''length''))"

text \<open>The response handling of \<open>getStatsList\<close>, given what the GET did.\<close>

definition getStatsList_result :: "js_platform \<Rightarrow> axios_result \<Rightarrow> js_error + json" where
  "getStatsList_result P r =
     (case r of
        Resolved body \<Rightarrow>
          if truthy body \<and> isArray body then Inr body
          else if truthy body \<and> lengthProp body \<noteq> JUndefined then Inr body
          else Inl (handleApiError P (PlainError (js ''Invalid response format from KOSIS API''))
                      (js ''getStatsList''))
      | Rejected err \<Rightarrow> Inl (handleApiError P err (js ''getStatsList'')))"

text \<open>
  The response handling of \<open>getStatsData\<close>. Its \<open>catch\<close> block builds the context
  \<open>`getStatsData for ${tableId}`\<close> before it calls \<open>handleApiError\<close>, and an exception
  of that conversion is what the function throws.
\<close>

definition getStatsData_result :: "js_platform \<Rightarrow> json \<Rightarrow> axios_result \<Rightarrow> js_error + json" where
  "getStatsData_result P tableId r =
     (let caught = (\<lambda>err. case toStringJS P tableId of
                            Inl e \<Rightarrow> e
                          | Inr idText \<Rightarrow> handleApiError P err (js ''getStatsData for '' @ idText))
      in case r of
        Resolved body \<Rightarrow>
          if truthy body \<and> isArray body then Inr body
          else Inl (caught (PlainError (js ''Invalid response format from KOSIS API'')))
      | Rejected err \<Rightarrow> Inl (caught err))"

definition getMetaInfo :: "js_platform \<Rightarrow> json \<Rightarrow> json" where
  "getMetaInfo P statsDataId =
     JObj [(js ''tableId'', statsDataId),
           (js ''note'', JStr (js ''Metadata retrieved from KOSIS API'')),
           (js ''lastUpdated'', JStr (now P))]"

section \<open>The orchestrator (mainLogic, runDemoMode)\<close>

text \<open>The records handed to \<open>Actor.pushData\<close>, one constructor for each shape.\<close>

datatype sink_record =
    DataPoint normalized_record
  | RawRecord (rawTableId: json) (rawTableInfo: json) (rawMetadata: json) (rawRows: json)
      (rawExtractedAt: jsstring)
  | TableError (errTableId: json) (errTableTitle: json) (errMessage: jsstring)
      (errExtractedAt: jsstring)
  | NoData (ndMessage: jsstring) (ndSearchParams: json) (ndExtractedAt: jsstring)
  | Summary (tablesProcessed: nat) (sumDataPoints: nat) (sumCriteria: configuration)
      (sumCompletedAt: jsstring)
  | TopError (topError: jsstring) (topMessage: jsstring) (topInput: configuration)
      (topExtractedAt: jsstring)
  | DemoSummary (demoMessage: jsstring) (demoDataPoints: nat) (demoCriteria: configuration)
      (registrationInfo: json) (demoCompletedAt: jsstring)

text \<open>The \<open>type\<close> property of an emitted record (\<open>None\<close>: the record has none).\<close>

fun recordType :: "sink_record \<Rightarrow> jsstring option" where
  "recordType (DataPoint r) = None"
| "recordType (RawRecord i t m d x) = Some (js ''raw'')"
| "recordType (TableError i t e x) = Some (js ''error'')"
| "recordType (NoData m p x) = None"
| "recordType (Summary n k c x) = Some (js ''summary'')"
| "recordType (TopError e m c x) = Some (js ''error'')"
| "recordType (DemoSummary m n c r x) = Some (js ''demo_summary'')"

text \<open>
  What a run does to the outside, in order: a record the sink accepted, a record it
  refused, a pause, a GET of the table list, a GET of a table's data, a chart drawn or
  failed. What the console logging prints is left out; the conversions to strings that its
  template literals make are kept where they can throw.
\<close>

datatype event =
    Emitted sink_record
  | Refused sink_record
  | Slept jsnumber
  | ListCalled json
  | DataCalled json json
  | ChartRendered "normalized_record list"
  | ChartFailed "normalized_record list"

text \<open>
  The collaborators of a run: the actor input, the two places a credential is looked up
  (\<open>process.env.KOSIS_API_KEY\<close>, then \<open>Actor.getValue\<close>), what each GET does, whether
  the sink accepts a record (\<open>Some m\<close>: \<open>pushData\<close> rejects with message \<open>m\<close>), and
  whether the chart can be drawn. Each may depend on everything that happened before.
\<close>

record actor_env =
  getInput :: json
  envApiKey :: json
  getValue :: json
  listResponse :: "event list \<Rightarrow> json \<Rightarrow> axios_result"
  dataResponse :: "event list \<Rightarrow> json \<Rightarrow> json \<Rightarrow> axios_result"
  pushData :: "event list \<Rightarrow> sink_record \<Rightarrow> jsstring option"
  renderChart :: "event list \<Rightarrow> normalized_record list \<Rightarrow> jsstring option"

text \<open>\<open>await Actor.pushData(r)\<close>\<close>

definition push :: "actor_env \<Rightarrow> sink_record \<Rightarrow> event list \<Rightarrow> js_error option \<times> event list" where
  "push env r tr =
     (case pushData env tr r of
        None \<Rightarrow> (None, tr @ [Emitted r])
      | Some m \<Rightarrow> (Some (Error m), tr @ [Refused r]))"

text \<open>\<open>for (const r of rs) await Actor.pushData(r)\<close>\<close>

fun pushAll :: "actor_env \<Rightarrow> sink_record list \<Rightarrow> event list \<Rightarrow> js_error option \<times> event list" where
  "pushAll env [] tr = (None, tr)"
| "pushAll env (r # rs) tr =
     (case push env r tr of
        (Some e, tr') \<Rightarrow> (Some e, tr')
      | (None, tr') \<Rightarrow> pushAll env rs tr')"

text \<open>
  \<open>xs.slice(0, n)\<close>: the end is truncated to an integer (\<open>NaN\<close> to zero), and a negative
  end counts from the end of the list.
\<close>

definition sliceTo :: "jsnumber \<Rightarrow> 'a list \<Rightarrow> 'a list" where
  "sliceTo n xs =
     (case n of
        NaN \<Rightarrow> []
      | PosInfinity \<Rightarrow> xs
      | NegInfinity \<Rightarrow> []
      | Finite q \<Rightarrow>
          (let k = (if 0 \<le> q then \<lfloor>q\<rfloor> else \<lceil>q\<rceil>)
           in if k < 0 then take (nat (int (length xs) + k)) xs else take (nat k) xs))"

subsection \<open>Demo mode\<close>

text \<open>
  The sample pool of \<open>runDemoMode\<close>. The names are: in-gu-chong-jo-sa chong-in-gu
  (census, total population); gyeong-je-hwal-dong-in-gu-jo-sa chwi-eop-ja-su (economically
  active population survey, employed persons); guk-nae-chong-saeng-san(GDP); so-bi-ja-mul-ga-
  ji-su (consumer price index).
\<close>

definition demoNote :: json where
  "demoNote = JStr (js ''This is demo data for Korean statistics'')"

definition demoData :: "js_platform \<Rightarrow> normalized_record list" where
  "demoData P =
     [\<lparr> statName = JStr [0xC778, 0xAD6C, 0xCD1D, 0xC870, 0xC0AC, 0x20, 0xCD1D, 0xC778, 0xAD6C],
        surveyDate = JStr [0x32, 0x30, 0x32, 0x30, 0xB144],
        region = JStr [0xC804, 0xAD6D],
        category1 = JStr [0xCD1D, 0xC778, 0xAD6C],
        category2 = JStr [0xACC4],
        valueNum = Finite 51829023,
        unitName = JStr [0xBA85],
        sourceTableId = JStr (js ''demo_001''),
        dataType = js ''population'',
        lastUpdated = JStr (js ''2021-08-31T00:00:00Z''),
        metadata = JObj
          [(js ''tableTitle'', JStr [0xC778, 0xAD6C, 0xCD1D, 0xC870, 0xC0AC, 0x20, 0xCD1D, 0xC778, 0xAD6C]),
           (js ''categories'', JObj [(js ''area'', JStr [0xC804, 0xAD6D]), (js ''gender'', JStr [0xACC4])]),
           (js ''note'', demoNote)],
        extractedAt = now P \<rparr>,
      \<lparr> statName = JStr [0xACBD, 0xC81C, 0xD65C, 0xB3D9, 0xC778, 0xAD6C, 0xC870, 0xC0AC, 0x20,
                          0xCDE8, 0xC5C5, 0xC790, 0xC218],
        surveyDate = JStr [0x32, 0x30, 0x32, 0x33, 0xB144, 0x20, 0x31, 0x32, 0xC6D4],
        region = JStr [0xC804, 0xAD6D],
        category1 = JStr [0xCDE8, 0xC5C5, 0xC790],
        category2 = JStr [0xC804, 0xCCB4],
        valueNum = Finite 28432000,
        unitName = JStr [0xBA85],
        sourceTableId = JStr (js ''demo_002''),
        dataType = js ''labor'',
        lastUpdated = JStr (js ''2024-01-15T00:00:00Z''),
        metadata = JObj
          [(js ''tableTitle'', JStr [0xACBD, 0xC81C, 0xD65C, 0xB3D9, 0xC778, 0xAD6C, 0xC870, 0xC0AC, 0x20,
                                    0xCDE8, 0xC5C5, 0xC790, 0xC218]),
           (js ''categories'', JObj [(js ''area'', JStr [0xC804, 0xAD6D]),
                                    (js ''employment'', JStr [0xCDE8, 0xC5C5, 0xC790])]),
           (js ''note'', demoNote)],
        extractedAt = now P \<rparr>,
      \<lparr> statName = JStr [0xAD6D, 0xB0B4, 0xCD1D, 0xC0DD, 0xC0B0, 0x28, 0x47, 0x44, 0x50, 0x29],
        surveyDate = JStr [0x32, 0x30, 0x32, 0x33, 0xB144],
        region = JStr [0xC804, 0xAD6D],
        category1 = JStr [0xC2E4, 0xC9C8, 0x47, 0x44, 0x50],
        category2 = JStr [0xC5F0, 0xAC04],
        valueNum = Finite 2080000,
        unitName = JStr [0xC2ED, 0xC5B5, 0xC6D0],
        sourceTableId = JStr (js ''demo_003''),
        dataType = js ''economic'',
        lastUpdated = JStr (js ''2024-03-26T00:00:00Z''),
        metadata = JObj
          [(js ''tableTitle'', JStr [0xAD6D, 0xB0B4, 0xCD1D, 0xC0DD, 0xC0B0, 0x28, 0x47, 0x44, 0x50, 0x29]),
           (js ''categories'', JObj [(js ''type'', JStr [0xC2E4, 0xC9C8, 0x47, 0x44, 0x50]),
                                    (js ''period'', JStr [0xC5F0, 0xAC04])]),
           (js ''note'', demoNote)],
        extractedAt = now P \<rparr>,
      \<lparr> statName = JStr [0xC18C, 0xBE44, 0xC790, 0xBB3C, 0xAC00, 0xC9C0, 0xC218],
        surveyDate = JStr [0x32, 0x30, 0x32, 0x34, 0xB144, 0x20, 0x38, 0xC6D4],
        region = JStr [0xC804, 0xAD6D],
        category1 = JStr [0xCD1D, 0xC9C0, 0xC218],
        category2 = JStr [0xC804, 0xC6D4, 0xB300, 0xBE44],
        valueNum = Finite (1023 / 10),
        unitName = JStr [0xC9C0, 0xC218],
        sourceTableId = JStr (js ''demo_004''),
        dataType = js ''prices'',
        lastUpdated = JStr (js ''2024-09-01T00:00:00Z''),
        metadata = JObj
          [(js ''tableTitle'', JStr [0xC18C, 0xBE44, 0xC790, 0xBB3C, 0xAC00, 0xC9C0, 0xC218]),
           (js ''categories'', JObj [(js ''type'', JStr [0xCD1D, 0xC9C0, 0xC218]),
                                    (js ''comparison'', JStr [0xC804, 0xC6D4, 0xB300, 0xBE44])]),
           (js ''note'', demoNote)],
        extractedAt = now P \<rparr>]"

text \<open>
  \<open>v.toLowerCase().includes(keyword)\<close> on a field of a pool record; every such field is a
  string literal.
\<close>

definition lowerIncludes :: "js_platform \<Rightarrow> json \<Rightarrow> jsstring \<Rightarrow> bool" where
  "lowerIncludes P v keyword =
     (case v of JStr s \<Rightarrow> includes_str (toLowerCase P s) keyword | _ \<Rightarrow> False)"

definition demoMatches :: "js_platform \<Rightarrow> jsstring \<Rightarrow> normalized_record \<Rightarrow> bool" where
  "demoMatches P keyword item \<longleftrightarrow>
     lowerIncludes P (statName item) keyword \<or>
     lowerIncludes P (category1 item) keyword \<or>
     includes_str (toLowerCase P (dataType item)) keyword"

definition demoSelection :: "js_platform \<Rightarrow> configuration \<Rightarrow> normalized_record list" where
  "demoSelection P input =
     (let filteredData =
            (if searchKeyword input \<noteq> []
             then filter (demoMatches P (toLowerCase P (searchKeyword input))) (demoData P)
             else demoData P)
      in sliceTo (maxItems input) filteredData)"

definition demoSummary :: "js_platform \<Rightarrow> configuration \<Rightarrow> nat \<Rightarrow> sink_record" where
  "demoSummary P input n =
     DemoSummary
       (js ''Demo mode completed. To access real KOSIS data, please provide KOSIS_API_KEY.'')
       n input
       (JObj [(js ''url'', JStr (js ''https://kosis.kr/openapi/index/index.jsp'')),
              (js ''note'', JStr (js ''Register for KOSIS API access (Korean phone number or i-PIN required)'')),
              (js ''warning'', JStr (js ''KOSIS API key registration requires Korean identity verification''))])
       (now P)"

definition runDemoMode ::
  "actor_env \<Rightarrow> js_platform \<Rightarrow> configuration \<Rightarrow> event list \<Rightarrow> js_error option \<times> event list" where
  "runDemoMode env P input tr =
     (let filteredData = demoSelection P input in
      case pushAll env (map DataPoint filteredData) tr of
        (Some e, tr') \<Rightarrow> (Some e, tr')
      | (None, tr') \<Rightarrow> push env (demoSummary P input (length filteredData)) tr')"

subsection \<open>The live path\<close>

definition buildSearchParams :: "configuration \<Rightarrow> json" where
  "buildSearchParams input =
     JObj ([(js ''vwCd'', JStr (if vwCd input \<noteq> [] then vwCd input else js ''MT_ZTITLE'')),
            (js ''parentId'', JStr (if parentId input \<noteq> [] then parentId input else js ''A''))]
           @ (if searchKeyword input \<noteq> []
              then [(js ''searchKeyword'', JStr (searchKeyword input))] else []))"

text \<open>
  \<open>getStatsList\<close> hands back any truthy body with a \<open>length\<close>: an array, a string, or
  an object with such a property. \<open>statsList.slice(0, maxItems)\<close> exists on the first two;
  \<open>for ... of\<close> walks an array by elements and a string by code points.
\<close>

fun codePoints :: "jsstring \<Rightarrow> jsstring list" where
  "codePoints [] = []"
| "codePoints [c] = [[c]]"
| "codePoints (c # d # cs) =
     (if 0xD800 \<le> c \<and> c \<le> 0xDBFF \<and> 0xDC00 \<le> d \<and> d \<le> 0xDFFF
      then [c, d] # codePoints cs
      else [c] # codePoints (d # cs))"

definition tablesToProcess :: "json \<Rightarrow> jsnumber \<Rightarrow> js_error + json list" where
  "tablesToProcess statsList n =
     (case statsList of
        JArr xs \<Rightarrow> Inr (sliceTo n xs)
      | JStr s \<Rightarrow> Inr (map JStr (codePoints (sliceTo n s)))
      | _ \<Rightarrow> Inl (TypeError (js ''statsList.slice is not a function'')))"

text \<open>
  \<open>table.TBL_ID || table.LIST_ID || `table_${processedTables}`\<close>; the counter is a small
  integer and prints as its decimal digits.
\<close>

definition tableIdOf :: "nat \<Rightarrow> json \<Rightarrow> js_error + json" where
  "tableIdOf n table =
     bindE (readProp table (js ''TBL_ID'')) (\<lambda>tblId.
       Inr (orElse (orElse tblId (getProp table (js ''LIST_ID'')))
                   (JStr (js ''table_'' @ showInt (int n)))))"

text \<open>\<open>table.TBL_NM || table.LIST_NM || 'Unknown Table'\<close>, read after the id.\<close>

definition tableTitleOf :: "json \<Rightarrow> json" where
  "tableTitleOf table =
     orElse (orElse (getProp table (js ''TBL_NM'')) (getProp table (js ''LIST_NM'')))
            (JStr (js ''Unknown Table''))"

definition statsParamsOf :: "json \<Rightarrow> json" where
  "statsParamsOf table =
     JObj [(js ''orgId'', orElse (getProp table (js ''ORG_ID'')) (JStr (js ''101''))),
           (js ''objL1'', JStr (js ''ALL'')),
           (js ''itmId'', JStr (js ''T1'')),
           (js ''prdSe'', JStr (js ''Y'')),
           (js ''newEstPrdCnt'', JStr (js ''5''))]"

text \<open>The variables of \<open>mainLogic\<close> that the loop updates, and the events so far.\<close>

record loop_state =
  processedTables :: nat
  totalDataPoints :: nat
  allNormalizedData :: "normalized_record list"
  trace :: "event list"

text \<open>
  \<open>for (const dataPoint of normalizedData) { await Actor.pushData(dataPoint);
  totalDataPoints++; }\<close>
\<close>

fun emitDataPoints ::
  "actor_env \<Rightarrow> normalized_record list \<Rightarrow> loop_state \<Rightarrow> js_error option \<times> loop_state" where
  "emitDataPoints env [] st = (None, st)"
| "emitDataPoints env (dp # dps) st =
     (case push env (DataPoint dp) (trace st) of
        (Some e, tr) \<Rightarrow> (Some e, st\<lparr>trace := tr\<rparr>)
      | (None, tr) \<Rightarrow>
          emitDataPoints env dps (st\<lparr>totalDataPoints := totalDataPoints st + 1, trace := tr\<rparr>))"

text \<open>
  The \<open>try\<close> block of one loop iteration. \<open>Some e\<close> is the exception that leaves it, with
  the state as it then stands. After the id and the title are read, the progress line
  \<open>`Processing table ...: ${tableTitle}`\<close> converts the title to a string. The pause is
  the last statement.
\<close>

definition processTableTry ::
  "actor_env \<Rightarrow> js_platform \<Rightarrow> configuration \<Rightarrow> json \<Rightarrow> loop_state
     \<Rightarrow> js_error option \<times> loop_state" where
  "processTableTry env P input table st =
     (let st1 = st\<lparr>processedTables := processedTables st + 1\<rparr> in
      case tableIdOf (processedTables st1) table of
        Inl e \<Rightarrow> (Some e, st1)
      | Inr tableId \<Rightarrow>
         (case toStringJS P (tableTitleOf table) of
            Inl e \<Rightarrow> (Some e, st1)
          | Inr titleText \<Rightarrow>
          let meta = (if includeMetadata input then getMetaInfo P tableId else JNull);
              statsParams = statsParamsOf table;
              tr1 = trace st1 @ [DataCalled tableId statsParams]
          in
          case getStatsData_result P tableId (dataResponse env tr1 tableId statsParams) of
            Inl e \<Rightarrow> (Some e, st1\<lparr>trace := tr1\<rparr>)
          | Inr statsData \<Rightarrow>
              (case (if outputFormat input = js ''raw'' \<or> outputFormat input = js ''both''
                     then push env (RawRecord tableId table meta statsData (now P)) tr1
                     else (None, tr1)) of
                 (Some e, tr2) \<Rightarrow> (Some e, st1\<lparr>trace := tr2\<rparr>)
               | (None, tr2) \<Rightarrow>
                   (case (if outputFormat input = js ''structured'' \<or> outputFormat input = js ''both''
                          then (let normalizedData = normalizeStatisticalData P statsData meta tableId
                                in emitDataPoints env normalizedData
                                     (st1\<lparr>allNormalizedData := allNormalizedData st1 @ normalizedData,
                                          trace := tr2\<rparr>))
                          else (None, st1\<lparr>trace := tr2\<rparr>)) of
                      (Some e, st2) \<Rightarrow> (Some e, st2)
                    | (None, st2) \<Rightarrow>
                        (None, st2\<lparr>trace := trace st2 @ [Slept (delayBetweenRequests input)]\<rparr>)))))"

text \<open>
  One loop iteration: the \<open>try\<close> block, and on an exception the \<open>catch\<close> block, which
  reads the table's id and title again, converts the id to a string for the progress line
  \<open>`Error processing table ${tableId}`\<close>, and pushes one error record. An exception of
  the \<open>catch\<close> block itself leaves the loop.
\<close>

definition processTable ::
  "actor_env \<Rightarrow> js_platform \<Rightarrow> configuration \<Rightarrow> json \<Rightarrow> loop_state
     \<Rightarrow> js_error option \<times> loop_state" where
  "processTable env P input table st =
     (case processTableTry env P input table st of
        (None, st') \<Rightarrow> (None, st')
      | (Some tableError, st') \<Rightarrow>
          (case tableIdOf (processedTables st') table of
             Inl e \<Rightarrow> (Some e, st')
           | Inr tableId \<Rightarrow>
               (case toStringJS P tableId of
                  Inl e \<Rightarrow> (Some e, st')
                | Inr idText \<Rightarrow>
                    (case push env
                            (TableError tableId (tableTitleOf table) (message tableError) (now P))
                            (trace st') of
                       (r, tr) \<Rightarrow> (r, st'\<lparr>trace := tr\<rparr>)))))"

fun processTables ::
  "actor_env \<Rightarrow> js_platform \<Rightarrow> configuration \<Rightarrow> json list \<Rightarrow> loop_state
     \<Rightarrow> js_error option \<times> loop_state" where
  "processTables env P input [] st = (None, st)"
| "processTables env P input (table # tables) st =
     (case processTable env P input table st of
        (Some e, st') \<Rightarrow> (Some e, st')
      | (None, st') \<Rightarrow> processTables env P input tables st')"

text \<open>
  The outer \<open>try\<close> block of \<open>mainLogic\<close>, entered with a credential.
  \<open>createKosisApiClient\<close> throws only for a falsy key, which cannot be here. The
  progress line \<open>`Found ${statsList.length} statistical tables`\<close> converts the length to
  a string.
\<close>

definition liveRun ::
  "actor_env \<Rightarrow> js_platform \<Rightarrow> configuration \<Rightarrow> js_error option \<times> event list" where
  "liveRun env P input =
     (let searchParams = buildSearchParams input;
          tr1 = [ListCalled searchParams]
      in
      case getStatsList_result P (listResponse env tr1 searchParams) of
        Inl e \<Rightarrow> (Some e, tr1)
      | Inr statsList \<Rightarrow>
         (case toStringJS P (lengthProp statsList) of
            Inl e \<Rightarrow> (Some e, tr1)
          | Inr lengthText \<Rightarrow>
          if lengthProp statsList = JNum (Finite 0) then
            push env (NoData (js ''No statistical tables found for the given search criteria'')
                        searchParams (now P)) tr1
          else
            (case tablesToProcess statsList (maxItems input) of
               Inl e \<Rightarrow> (Some e, tr1)
             | Inr tables \<Rightarrow>
                 (case processTables env P input tables
                         \<lparr>processedTables = 0, totalDataPoints = 0, allNormalizedData = [],
                          trace = tr1\<rparr> of
                    (Some e, st) \<Rightarrow> (Some e, trace st)
                  | (None, st) \<Rightarrow>
                      (case (if allNormalizedData st \<noteq> []
                             then (case renderChart env (trace st) (allNormalizedData st) of
                                     Some m \<Rightarrow> (Some (Error m),
                                                trace st @ [ChartFailed (allNormalizedData st)])
                                   | None \<Rightarrow> (None,
                                              trace st @ [ChartRendered (allNormalizedData st)]))
                             else (None, trace st)) of
                         (Some e, tr2) \<Rightarrow> (Some e, tr2)
                       | (None, tr2) \<Rightarrow>
                           push env (Summary (processedTables st) (totalDataPoints st) input (now P))
                             tr2)))))"

text \<open>The test of the outer \<open>catch\<close> block on the error's message.\<close>

definition authFlavoured :: "jsstring \<Rightarrow> bool" where
  "authFlavoured m \<longleftrightarrow>
     includes_str m (js ''403'') \<or> includes_str m (js ''401'') \<or> includes_str m (js ''API'')"

text \<open>
  \<open>mainLogic\<close>: the exception that leaves it (\<open>None\<close>: it returns), and the events of
  the run. \<open>validateInput\<close> is called outside any \<open>try\<close>.
\<close>

definition mainLogic :: "actor_env \<Rightarrow> js_platform \<Rightarrow> js_error option \<times> event list" where
  "mainLogic env P =
     (case validateInput P (orElse (getInput env) (JObj [])) of
        Inl e \<Rightarrow> (Some e, [])
      | Inr validatedInput \<Rightarrow>
          let kosisApiKey = orElse (envApiKey env) (getValue env) in
          if \<not> truthy kosisApiKey then runDemoMode env P validatedInput []
          else
            (case liveRun env P validatedInput of
               (None, tr) \<Rightarrow> (None, tr)
             | (Some error, tr) \<Rightarrow>
                 if authFlavoured (message error) then runDemoMode env P validatedInput tr
                 else
                   (case push env
                           (TopError (message error)
                              (js ''An error occurred while processing. Falling back to demo mode.'')
                              validatedInput (now P)) tr of
                      (Some e, tr') \<Rightarrow> (Some e, tr')
                    | (None, tr') \<Rightarrow> runDemoMode env P validatedInput tr')))"

section \<open>Definitions used to state the properties\<close>

text \<open>A text field of the input as the documented input type has it: absent, null or a string.\<close>

fun textOrAbsent :: "json \<Rightarrow> bool" where
  "textOrAbsent JUndefined = True"
| "textOrAbsent JNull = True"
| "textOrAbsent (JStr s) = True"
| "textOrAbsent v = False"

definition trimOrValue :: "json \<Rightarrow> jsstring \<Rightarrow> jsstring" where
  "trimOrValue v d = (case v of JStr s \<Rightarrow> if trim s = [] then d else trim s | _ \<Rightarrow> d)"

text \<open>
  The values \<open>ToString\<close> converts without an exception: no object with an own \<open>toString\<close>
  property, at the top or in an array.
\<close>

fun printable :: "json \<Rightarrow> bool" where
  "printable (JArr xs) = (\<forall>x \<in> set xs. printable x)"
| "printable (JObj kvs) = (js ''toString'' \<notin> fst ` set kvs)"
| "printable v = True"

text \<open>
  The rejections of a request whose message \<open>handleApiError\<close> can build: the status and the
  provider's message of an HTTP error response are printable.
\<close>

fun describable :: "axios_error \<Rightarrow> bool" where
  "describable (WithResponse status body) = (printable status \<and> printable (apiErrorMsgOf body))"
| "describable err = True"

text \<open>What a GET did, when it is a response or a rejection of that kind.\<close>

fun describableResult :: "axios_result \<Rightarrow> bool" where
  "describableResult (Resolved body) = True"
| "describableResult (Rejected err) = describable err"

text \<open>\<open>a \<le> b\<close> on numbers.\<close>

definition numLeq :: "jsnumber \<Rightarrow> jsnumber \<Rightarrow> bool" where
  "numLeq a b \<longleftrightarrow> a \<noteq> NaN \<and> b \<noteq> NaN \<and> \<not> numLess b a"

text \<open>
  The classifier as the specification words it: an ordered list of keyword sets, the first
  set with a keyword that occurs in the name wins, and no match gives \<open>general\<close>.
\<close>

definition keywordSets :: "(jsstring \<times> jsstring list) list" where
  "keywordSets =
     [(js ''population'', [[0xC778, 0xAD6C], js ''population'']),
      (js ''economic'', [[0xACBD, 0xC81C], js ''gdp'', [0xACBD, 0xC81C, 0xC131, 0xC7A5]]),
      (js ''labor'', [[0xB178, 0xB3D9], [0xACE0, 0xC6A9], [0xCDE8, 0xC5C5]]),
      (js ''industry'', [[0xC0B0, 0xC5C5], [0xC81C, 0xC870, 0xC5C5]]),
      (js ''education'', [[0xAD50, 0xC721], [0xD559, 0xAD50]]),
      (js ''health'', [[0xC758, 0xB8CC], [0xBCF4, 0xAC74], [0xAC74, 0xAC15]]),
      (js ''environment'', [[0xD658, 0xACBD], [0xC624, 0xC5FC]]),
      (js ''housing'', [[0xC8FC, 0xD0DD], [0xBD80, 0xB3D9, 0xC0B0]]),
      (js ''income'', [[0xC18C, 0xB4DD], [0xC18C, 0xBE44], [0xAC00, 0xACC4]]),
      (js ''prices'', [[0xBB3C, 0xAC00], [0xAC00, 0xACA9]])]"

fun classify_spec :: "(jsstring \<times> jsstring list) list \<Rightarrow> jsstring \<Rightarrow> jsstring" where
  "classify_spec [] name = js ''general''"
| "classify_spec ((category, keywords) # rest) name =
     (if \<exists>k \<in> set keywords. sublist k name then category else classify_spec rest name)"


text \<open>
  The sink as the specification describes it: it accepts every record.
\<close>

definition acceptingSink :: "actor_env \<Rightarrow> bool" where
  "acceptingSink env \<longleftrightarrow> (\<forall>tr r. pushData env tr r = None)"

text \<open>
  A trace grows only at its end; \<open>extends Q tr tr'\<close> says what was added satisfies \<open>Q\<close>.
\<close>

definition extends :: "(event \<Rightarrow> bool) \<Rightarrow> event list \<Rightarrow> event list \<Rightarrow> bool" where
  "extends Q tr tr' \<longleftrightarrow> (\<exists>evs. tr' = tr @ evs \<and> list_all Q evs)"

text \<open>
  The records and events of demo mode.
\<close>

fun demoRecord :: "sink_record \<Rightarrow> bool" where
  "demoRecord (DataPoint r) = True"
| "demoRecord (DemoSummary m n c g x) = True"
| "demoRecord r = False"

fun demoEvent :: "event \<Rightarrow> bool" where
  "demoEvent (Emitted r) = demoRecord r"
| "demoEvent (Refused r) = demoRecord r"
| "demoEvent ev = False"


text \<open>
  The events of a demo run whose every record the sink accepts.
\<close>

definition demoEvents :: "js_platform \<Rightarrow> configuration \<Rightarrow> event list" where
  "demoEvents P cfg =
     map (\<lambda>r. Emitted (DataPoint r)) (demoSelection P cfg)
       @ [Emitted (demoSummary P cfg (length (demoSelection P cfg)))]"

text \<open>
  The events of one table's \<open>try\<close> block before its pause.
\<close>

fun fetchRecord :: "sink_record \<Rightarrow> bool" where
  "fetchRecord (DataPoint r) = True"
| "fetchRecord (RawRecord i t m d x) = True"
| "fetchRecord r = False"

fun fetchEvent :: "event \<Rightarrow> bool" where
  "fetchEvent (DataCalled i p) = True"
| "fetchEvent (Emitted r) = fetchRecord r"
| "fetchEvent (Refused r) = fetchRecord r"
| "fetchEvent ev = False"

text \<open>The rows \<open>normalizeStatisticalData\<close> walks: a value that is not an array is one row.\<close>

definition rowsOf :: "json \<Rightarrow> json list" where
  "rowsOf rawData = (case rawData of JArr xs \<Rightarrow> xs | _ \<Rightarrow> [rawData])"

subsection \<open>Sample inputs\<close>

text \<open>
  A platform for concrete runs: lower-casing of the ASCII letters (which is what
  \<open>toLowerCase\<close> does on ASCII and Hangul text), \<open>parseFloat\<close> as it reads decimal
  integer literals, the text of a number as it is for the integers below \<open>10^21\<close> in
  magnitude, and a fixed clock reading.
\<close>

definition asciiLower :: "jsstring \<Rightarrow> jsstring" where
  "asciiLower s = map (\<lambda>c. if 0x41 \<le> c \<and> c \<le> 0x5A then c + 0x20 else c) s"

definition integerText :: "jsnumber \<Rightarrow> jsstring" where
  "integerText x =
     (case x of
        NaN \<Rightarrow> js ''NaN''
      | PosInfinity \<Rightarrow> js ''Infinity''
      | NegInfinity \<Rightarrow> js ''-Infinity''
      | Finite q \<Rightarrow> showInt \<lfloor>q\<rfloor>)"

definition samplePlatform :: js_platform where
  "samplePlatform =
     \<lparr> toLowerCase = asciiLower,
       parseFloat = parseInt,
       numberToString = integerText,
       now = js ''2024-09-21T10:30:00.000Z'' \<rparr>"

text \<open>
  A run without a credential, on a sink that accepts everything.
\<close>

definition sampleEnv :: actor_env where
  "sampleEnv =
     \<lparr> getInput = JObj [(js ''searchKeyword'', JStr (js ''GDP''))],
       envApiKey = JUndefined,
       getValue = JNull,
       listResponse = (\<lambda>tr params. Resolved (JArr [])),
       dataResponse = (\<lambda>tr tableId params. Resolved (JArr [])),
       pushData = (\<lambda>tr r. None),
       renderChart = (\<lambda>tr rs. None) \<rparr>"


definition defaultConfig :: configuration where
  "defaultConfig =
     \<lparr> searchKeyword = [], vwCd = js ''MT_ZTITLE'', parentId = js ''A'',
       maxItems = Finite 10, includeMetadata = True, outputFormat = js ''structured'',
       delayBetweenRequests = Finite 1000 \<rparr>"

definition rawConfig :: configuration where
  "rawConfig = defaultConfig\<lparr> outputFormat := js ''raw'' \<rparr>"

text \<open>
  Runs with a credential: an empty table list, a listing answered with HTTP 401, a list
  whose only entry is \<open>null\<close>, and a listing answered with HTTP 500 and a body whose
  \<open>message\<close> is the object \<open>{toString: 1}\<close>.
\<close>

definition liveEnv :: actor_env where
  "liveEnv = sampleEnv\<lparr> getInput := JObj [], envApiKey := JStr (js ''key'') \<rparr>"

definition unauthorizedEnv :: actor_env where
  "unauthorizedEnv =
     liveEnv\<lparr> listResponse := (\<lambda>tr params.
        Rejected (WithResponse (JNum (Finite 401))
                    (JObj [(js ''message'', JStr (js ''Unauthorized''))]))) \<rparr>"

definition opaqueMessageEnv :: actor_env where
  "opaqueMessageEnv =
     liveEnv\<lparr> listResponse := (\<lambda>tr params.
        Rejected (WithResponse (JNum (Finite 500))
                    (JObj [(js ''message'', JObj [(js ''toString'', JNum (Finite 1))])]))) \<rparr>"

definition nullTableEnv :: actor_env where
  "nullTableEnv = liveEnv\<lparr> listResponse := (\<lambda>tr params. Resolved (JArr [JNull])) \<rparr>"

text \<open>
  Two tables; the data request for the first gets no response.
\<close>

definition tableT1 :: json where
  "tableT1 = JObj [(js ''TBL_ID'', JStr (js ''T1''))]"

definition tableOpaque :: json where
  "tableOpaque = JObj [(js ''TBL_ID'', JObj [(js ''toString'', JNum (Finite 1))])]"

definition tableT2 :: json where
  "tableT2 = JObj [(js ''TBL_ID'', JStr (js ''T2''))]"

definition firstFailsEnv :: actor_env where
  "firstFailsEnv =
     liveEnv\<lparr> listResponse := (\<lambda>tr params. Resolved (JArr [tableT1, tableT2])),
               dataResponse := (\<lambda>tr tableId params.
                  if tableId = JStr (js ''T1'') then Rejected NoResponse else Resolved (JArr [])) \<rparr>"

text \<open>
  A sink that refuses the first two records it is handed and accepts the rest, on a run
  that asks for raw output.
\<close>

fun refusedEvent :: "event \<Rightarrow> bool" where
  "refusedEvent (Refused r) = True"
| "refusedEvent ev = False"

definition outageEnv :: actor_env where
  "outageEnv =
     liveEnv\<lparr> getInput := JObj [(js ''outputFormat'', JStr (js ''raw''))],
               listResponse := (\<lambda>tr params. Resolved (JArr [tableT1, tableT2])),
               pushData := (\<lambda>tr r. if length (filter refusedEvent tr) < 2
                                     then Some (js ''sink unavailable'') else None) \<rparr>"

text \<open>
  The loop state when the first table is reached.
\<close>

definition listedState :: loop_state where
  "listedState =
     \<lparr> processedTables = 0, totalDataPoints = 0, allNormalizedData = [],
       trace = [ListCalled (buildSearchParams defaultConfig)] \<rparr>"

section \<open>Properties\<close>

subsection \<open>Strings\<close>

lemma includes_str_sublist: "includes_str s k \<longleftrightarrow> sublist k s"
  by (induction s) (auto simp: sublist_Cons_right)

subsection \<open>Topic classification\<close>

lemma determineDataType_classify:
  "determineDataType P (JStr s) = Inr (classify_spec keywordSets (toLowerCase P s))"
  by (simp add: determineDataType_def keywordSets_def includes_str_sublist Let_def)

text \<open>
  C10. On a string, \<open>determineDataType\<close> never fails and returns the category of the first
  keyword set, in the order population, economic, labor, industry, education, health,
  environment, housing, income, prices, one of whose keywords occurs in the lower-cased
  name, and \<open>general\<close> when none does. The result depends on the name only through its
  lower-casing, so two names that differ in case only are classified alike. Being a
  function of the platform's \<open>toLowerCase\<close> and the name, it is deterministic and has no
  effect.
\<close>

theorem determineDataType_first_match:
  "determineDataType P (JStr s) = Inr (classify_spec keywordSets (toLowerCase P s))
   \<and> (toLowerCase P s = toLowerCase P s' \<longrightarrow>
        determineDataType P (JStr s) = determineDataType P (JStr s'))"
  by (simp add: determineDataType_classify)

theorem determineDataType_first_match_witness:
  "toLowerCase samplePlatform (js ''GDP and Population'')
     = toLowerCase samplePlatform (js ''gdp and population'')
   \<and> determineDataType samplePlatform (JStr (js ''GDP and Population'')) = Inr (js ''population'')
   \<and> determineDataType samplePlatform (JStr (js ''gdp and population'')) = Inr (js ''population'')"
proof -
  let ?A = "js ''GDP and Population''" and ?B = "js ''gdp and population''"
  have same: "toLowerCase samplePlatform ?A = toLowerCase samplePlatform ?B"
    by (simp add: samplePlatform_def asciiLower_def js_def)
  have cls: "classify_spec keywordSets (toLowerCase samplePlatform ?A) = js ''population''"
    by (simp add: samplePlatform_def asciiLower_def js_def keywordSets_def sublist_Cons_right)
  from determineDataType_first_match [of samplePlatform ?A ?B]
  have a: "determineDataType samplePlatform (JStr ?A)
             = Inr (classify_spec keywordSets (toLowerCase samplePlatform ?A))"
    and b: "toLowerCase samplePlatform ?A = toLowerCase samplePlatform ?B \<longrightarrow>
        determineDataType samplePlatform (JStr ?A) = determineDataType samplePlatform (JStr ?B)"
    by blast+
  from b same
  have "determineDataType samplePlatform (JStr ?B) = determineDataType samplePlatform (JStr ?A)"
    by simp
  with a cls same show ?thesis by simp
qed

subsection \<open>trim\<close>

lemma trim_prefix: "\<exists>z. dropWhile P s = rev (dropWhile P (rev (dropWhile P s))) @ z"
proof -
  let ?u = "dropWhile P s"
  have "rev ?u = takeWhile P (rev ?u) @ dropWhile P (rev ?u)" by simp
  then have "?u = rev (dropWhile P (rev ?u)) @ rev (takeWhile P (rev ?u))"
    by (metis rev_append rev_rev_ident)
  then show ?thesis by blast
qed

lemma trim_hd: assumes "trim s \<noteq> []" shows "\<not> isWhiteSpace (hd (trim s))"
proof -
  obtain z where z: "dropWhile isWhiteSpace s = trim s @ z"
    unfolding trim_def using trim_prefix by blast
  then have "hd (dropWhile isWhiteSpace s) = hd (trim s)" using assms by simp
  moreover have "dropWhile isWhiteSpace s \<noteq> []" using z assms by simp
  ultimately show ?thesis using hd_dropWhile [of isWhiteSpace s] by simp
qed

lemma trim_idem: "trim (trim s) = trim s"
proof (cases "trim s = []")
  case True
  have "trim [] = []" by (simp add: trim_def)
  with True show ?thesis by simp
next
  case False
  then have "dropWhile isWhiteSpace (trim s) = trim s"
    using trim_hd by (simp add: dropWhile_eq_self_iff)
  then have "trim (trim s) = rev (dropWhile isWhiteSpace (rev (trim s)))"
    by (simp add: trim_def)
  also have "\<dots> = trim s" by (simp add: trim_def)
  finally show ?thesis .
qed

subsection \<open>ToString\<close>

lemma sequenceE_all:
  "(\<forall>r \<in> set rs. \<exists>x. r = Inr x) \<Longrightarrow> \<exists>xs. sequenceE rs = Inr xs"
  by (induction rs rule: sequenceE.induct) auto

lemma sequenceE_first:
  "sequenceE rs = Inl e \<Longrightarrow> Inl e \<in> set rs"
  by (induction rs rule: sequenceE.induct) (auto split: sum.splits)

lemma sequenceE_results:
  "sequenceE rs = Inr xs \<Longrightarrow> \<forall>r \<in> set rs. \<exists>x. r = Inr x"
  by (induction rs arbitrary: xs rule: sequenceE.induct) (auto split: sum.splits)

lemma toStringJS_printable: "printable v \<Longrightarrow> \<exists>s. toStringJS P v = Inr s"
proof (induction v)
  case (JArr xs)
  have "\<forall>r \<in> set (map (\<lambda>x. if x = JNull \<or> x = JUndefined then Inr [] else toStringJS P x) xs).
          \<exists>s. r = Inr s"
    using JArr by auto
  from sequenceE_all [OF this] show ?case by auto
qed simp_all

lemma toStringJS_throws:
  "toStringJS P v = Inl e \<Longrightarrow>
     e = TypeError (js ''Cannot convert object to primitive value'') \<and> \<not> printable v"
proof (induction v)
  case (JArr xs)
  let ?rs = "map (\<lambda>x. if x = JNull \<or> x = JUndefined then Inr [] else toStringJS P x) xs"
  from JArr.prems have "sequenceE ?rs = Inl e" by (auto split: sum.splits)
  then have "Inl e \<in> set ?rs" by (rule sequenceE_first)
  then obtain x where "x \<in> set xs" "toStringJS P x = Inl e" by (auto split: if_splits)
  with JArr.IH show ?case by auto
qed (auto split: if_splits)

lemma toStringJS_returns: "toStringJS P v = Inr s \<Longrightarrow> printable v"
proof (induction v arbitrary: s)
  case (JArr xs)
  let ?rs = "map (\<lambda>x. if x = JNull \<or> x = JUndefined then Inr [] else toStringJS P x) xs"
  from JArr.prems obtain parts where "sequenceE ?rs = Inr parts" by (auto split: sum.splits)
  from sequenceE_results [OF this]
  have all: "\<forall>x \<in> set xs. \<exists>t. (if x = JNull \<or> x = JUndefined then Inr [] else toStringJS P x) = Inr t"
    by auto
  have "printable x" if x: "x \<in> set xs" for x
  proof (cases "x = JNull \<or> x = JUndefined")
    case True
    then show ?thesis by auto
  next
    case False
    with all x obtain t where "toStringJS P x = Inr t" by auto
    with JArr.IH x show ?thesis by blast
  qed
  then show ?case by simp
qed (auto split: if_splits)

lemma toStringJS_unprintable:
  assumes "\<not> printable v"
  shows "toStringJS P v = Inl (TypeError (js ''Cannot convert object to primitive value''))"
proof (cases "toStringJS P v")
  case (Inl e)
  with toStringJS_throws [OF Inl] show ?thesis by simp
next
  case (Inr s)
  with toStringJS_returns assms show ?thesis by blast
qed

subsection \<open>Numbers\<close>

lemma small_numbers:
  "200 < exactBelow" "5 < exactBelow" "0 < exactBelow"
  "\<not> overflowFrom \<le> 200" "\<not> overflowFrom \<le> 5" "0 < overflowFrom"
  by (simp_all add: exactBelow_def overflowFrom_def)

lemma roundToDouble_integral:
  "roundToDouble n = Finite q \<Longrightarrow> \<exists>k. q = of_int k"
proof -
  have a: "\<exists>k. rat_of_nat m = rat_of_int k" for m by (rule exI [of _ "int m"]) simp
  have b: "\<exists>k. - rat_of_nat m = rat_of_int k" for m by (rule exI [of _ "- int m"]) simp
  assume "roundToDouble n = Finite q"
  then show ?thesis
    unfolding roundToDouble_def Let_def using a b by (auto split: if_splits)
qed

lemma parseInt_integral: "parseInt s = Finite q \<Longrightarrow> \<exists>k. q = of_int k"
  unfolding parseInt_def Let_def
  by (auto dest: roundToDouble_integral split: if_splits)

lemma clamp_maxItems:
  "mathMin (mathMax (orDefault x (Finite 10)) (Finite 1)) (Finite 100)
     = (case x of
          NaN \<Rightarrow> Finite 10
        | PosInfinity \<Rightarrow> Finite 100
        | NegInfinity \<Rightarrow> Finite 1
        | Finite q \<Rightarrow> if q = 0 then Finite 10 else if 100 < q then Finite 100
                      else if q < 1 then Finite 1 else Finite q)"
  by (cases x) (auto simp: mathMin_def mathMax_def orDefault_def truthyNum_def)

lemma clamp_maxItems_range:
  assumes "x = NaN \<or> x = PosInfinity \<or> x = NegInfinity \<or> (\<exists>k. x = Finite (of_int k))"
  shows "\<exists>n. mathMin (mathMax (orDefault x (Finite 10)) (Finite 1)) (Finite 100) = Finite (of_int n)
           \<and> 1 \<le> n \<and> n \<le> 100"
proof -
  let ?m = "mathMin (mathMax (orDefault x (Finite 10)) (Finite 1)) (Finite 100)"
  have ten: "?m = Finite 10 \<Longrightarrow> ?thesis" by (intro exI [of _ 10]) simp
  have hundred: "?m = Finite 100 \<Longrightarrow> ?thesis" by (intro exI [of _ 100]) simp
  have one: "?m = Finite 1 \<Longrightarrow> ?thesis" by (intro exI [of _ 1]) simp
  from assms consider "x = NaN" | "x = PosInfinity" | "x = NegInfinity"
    | k where "x = Finite (of_int k)" by blast
  then show ?thesis
  proof cases
    case 1
    then show ?thesis by (intro ten) (simp add: clamp_maxItems)
  next
    case 2
    then show ?thesis by (intro hundred) (simp add: clamp_maxItems)
  next
    case 3
    then show ?thesis by (intro one) (simp add: clamp_maxItems)
  next
    case (4 k)
    consider "k = 0" | "100 < k" | "k < 0" | "1 \<le> k" "k \<le> 100" by linarith
    then show ?thesis
    proof cases
      case 1
      with 4 show ?thesis by (intro ten) (simp add: clamp_maxItems)
    next
      case 2
      with 4 show ?thesis by (intro hundred) (simp add: clamp_maxItems)
    next
      case 3
      with 4 show ?thesis by (intro one) (simp add: clamp_maxItems)
    next
      case 4
      with \<open>x = Finite (of_int k)\<close> have "?m = Finite (of_int k)"
        by (simp add: clamp_maxItems)
      with 4 show ?thesis by blast
    qed
  qed
qed

lemma parseInt_shape:
  "parseInt s = NaN \<or> parseInt s = PosInfinity \<or> parseInt s = NegInfinity
     \<or> (\<exists>k. parseInt s = Finite (of_int k))"
  using parseInt_integral [of s] by (cases "parseInt s") auto

lemma delay_floor: "numLeq (Finite 500) (mathMax (orDefault x (Finite 1000)) (Finite 500))"
  by (cases x) (auto simp: mathMax_def orDefault_def truthyNum_def numLeq_def)

subsection \<open>Input validation\<close>

lemma trimOr_text: "textOrAbsent v \<Longrightarrow> trimOr f v d = Inr (trimOrValue v d)"
  by (cases v) (simp_all add: trimOrValue_def)

lemma trimOrValue_nonempty: "d \<noteq> [] \<Longrightarrow> trimOrValue v d \<noteq> []"
  by (cases v) (simp_all add: trimOrValue_def)

lemma trimOrValue_trimmed: "trim (trimOrValue v []) = trimOrValue v []"
  by (cases v) (simp_all add: trimOrValue_def trim_idem, simp_all add: trim_def)

lemma outputFormat_known:
  "(case v of JStr s \<Rightarrow> if s \<in> set [js ''structured'', js ''raw'', js ''both''] then s
                            else js ''structured'' | _ \<Rightarrow> js ''structured'')
    \<in> {js ''structured'', js ''raw'', js ''both''}"
  by (cases v) auto

lemma validateInput_object:
  assumes "textOrAbsent (getProp (JObj kvs) (js ''searchKeyword''))"
      and "textOrAbsent (getProp (JObj kvs) (js ''vwCd''))"
      and "textOrAbsent (getProp (JObj kvs) (js ''parentId''))"
      and "toStringJS P (getProp (JObj kvs) (js ''maxItems'')) = Inr maxItemsText"
      and "toStringJS P (getProp (JObj kvs) (js ''delayBetweenRequests'')) = Inr delayText"
  shows "validateInput P (JObj kvs) =
     Inr \<lparr> searchKeyword = trimOrValue (getProp (JObj kvs) (js ''searchKeyword'')) [],
             vwCd = trimOrValue (getProp (JObj kvs) (js ''vwCd'')) (js ''MT_ZTITLE''),
             parentId = trimOrValue (getProp (JObj kvs) (js ''parentId'')) (js ''A''),
             maxItems =
               mathMin (mathMax (orDefault (parseInt maxItemsText) (Finite 10)) (Finite 1)) (Finite 100),
             includeMetadata = (getProp (JObj kvs) (js ''includeMetadata'') \<noteq> JBool False),
             outputFormat =
               (case getProp (JObj kvs) (js ''outputFormat'') of
                  JStr s \<Rightarrow> if s \<in> set [js ''structured'', js ''raw'', js ''both''] then s
                            else js ''structured''
                | _ \<Rightarrow> js ''structured''),
             delayBetweenRequests =
               mathMax (orDefault (parseInt delayText) (Finite 1000)) (Finite 500)
           \<rparr>"
  using assms by (simp add: validateInput_def readProp_def bindE_def trimOr_text)

lemma validateInput_bounds:
  assumes "validateInput P input = Inr cfg"
  shows "\<exists>n. maxItems cfg = Finite (of_int n) \<and> 1 \<le> n \<and> n \<le> 100"
    and "numLeq (Finite 500) (delayBetweenRequests cfg)"
    and "\<exists>maxItemsText. toStringJS P (getProp input (js ''maxItems'')) = Inr maxItemsText
           \<and> maxItems cfg =
               mathMin (mathMax (orDefault (parseInt maxItemsText) (Finite 10)) (Finite 1)) (Finite 100)"
  using assms clamp_maxItems_range [OF parseInt_shape] delay_floor
  by (auto simp: validateInput_def bindE_def split: sum.splits)

text \<open>
  C3, as amended. For every input object whose \<open>searchKeyword\<close>, \<open>vwCd\<close> and
  \<open>parentId\<close> are each absent, null or a string, and whose \<open>maxItems\<close> and
  \<open>delayBetweenRequests\<close> can be converted to a string (they are not, and do not contain,
  an object with an own \<open>toString\<close> property), whatever else its fields hold,
  \<open>validateInput\<close> returns a Configuration with every field inside its bounds: a trimmed
  \<open>searchKeyword\<close>, a non-empty \<open>vwCd\<close> and \<open>parentId\<close>, an integer \<open>maxItems\<close> in
  [1,100], an \<open>outputFormat\<close> among structured, raw and both, and a delay of at least
  500.
\<close>

theorem validateInput_typed_text_fields:
  assumes "textOrAbsent (getProp (JObj kvs) (js ''searchKeyword''))"
      and "textOrAbsent (getProp (JObj kvs) (js ''vwCd''))"
      and "textOrAbsent (getProp (JObj kvs) (js ''parentId''))"
      and "printable (getProp (JObj kvs) (js ''maxItems''))"
      and "printable (getProp (JObj kvs) (js ''delayBetweenRequests''))"
  shows "\<exists>cfg. validateInput P (JObj kvs) = Inr cfg
           \<and> trim (searchKeyword cfg) = searchKeyword cfg
           \<and> vwCd cfg \<noteq> [] \<and> parentId cfg \<noteq> []
           \<and> (\<exists>n. maxItems cfg = Finite (of_int n) \<and> 1 \<le> n \<and> n \<le> 100)
           \<and> outputFormat cfg \<in> {js ''structured'', js ''raw'', js ''both''}
           \<and> numLeq (Finite 500) (delayBetweenRequests cfg)"
proof -
  have ne: "js ''MT_ZTITLE'' \<noteq> []" "js ''A'' \<noteq> []" by (simp_all add: js_def)
  from toStringJS_printable [OF assms(4)] toStringJS_printable [OF assms(5)]
  obtain mt dt where mt: "toStringJS P (getProp (JObj kvs) (js ''maxItems'')) = Inr mt"
    and dt: "toStringJS P (getProp (JObj kvs) (js ''delayBetweenRequests'')) = Inr dt"
    by blast
  note cfg = validateInput_object [OF assms(1-3) mt dt]
  show ?thesis
    using validateInput_bounds(1,2) [OF cfg]
          outputFormat_known [of "getProp (JObj kvs) (js ''outputFormat'')"]
    by (simp add: cfg trimOrValue_trimmed trimOrValue_nonempty ne)
qed

text \<open>
  C3, as stated, fails: on the input object \<open>{searchKeyword: 123}\<close> the call
  \<open>input.searchKeyword?.trim()\<close> throws a TypeError, since \<open>?.\<close> guards against null
  and undefined only.
\<close>

theorem validateInput_numeric_keyword_throws:
  "validateInput samplePlatform (JObj [(js ''searchKeyword'', JNum (Finite 123))])
     = Inl (TypeError (js ''input.searchKeyword?.trim is not a function''))"
  by (simp add: validateInput_def readProp_def getProp_def bindE_def js_def)

lemma parseInt_samples:
  "parseInt (js ''200'') = Finite 200"
  "parseInt (showInt 0) = Finite 0"
  "parseInt (js ''-5'') = Finite (- 5)"
  "parseInt (js ''undefined'') = NaN"
  by (simp_all add: parseInt_def roundToDouble_def roundedMagnitude_def js_def isWhiteSpace_def
        isDigit_def digitVal_def digitsValue_def Let_def showInt_def showNat.simps small_numbers)

text \<open>
  C7, as amended. For every input object on which \<open>validateInput\<close> returns (its three
  text fields are absent, null or strings, and \<open>maxItems\<close> and \<open>delayBetweenRequests\<close>
  can be converted to strings), the resulting \<open>maxItems\<close> is an integer in [1,100]: with
  \<open>n\<close> what \<open>parseInt\<close> reads from the text of the field, it is 100 when \<open>n\<close> is above
  100, 1 when \<open>n\<close> is negative, \<open>n\<close> itself from 1 to 100, and the default 10 when the
  field is absent, reads as zero, or does not parse.
\<close>

theorem validateInput_maxItems_clamped:
  assumes "textOrAbsent (getProp (JObj kvs) (js ''searchKeyword''))"
      and "textOrAbsent (getProp (JObj kvs) (js ''vwCd''))"
      and "textOrAbsent (getProp (JObj kvs) (js ''parentId''))"
      and "printable (getProp (JObj kvs) (js ''maxItems''))"
      and "printable (getProp (JObj kvs) (js ''delayBetweenRequests''))"
  shows "\<exists>cfg maxItemsText.
           validateInput P (JObj kvs) = Inr cfg
           \<and> toStringJS P (getProp (JObj kvs) (js ''maxItems'')) = Inr maxItemsText
           \<and> (\<exists>n. maxItems cfg = Finite (of_int n) \<and> 1 \<le> n \<and> n \<le> 100)
           \<and> maxItems cfg =
               (case parseInt maxItemsText of
                  NaN \<Rightarrow> Finite 10
                | PosInfinity \<Rightarrow> Finite 100
                | NegInfinity \<Rightarrow> Finite 1
                | Finite q \<Rightarrow> if q = 0 then Finite 10 else if 100 < q then Finite 100
                              else if q < 1 then Finite 1 else Finite q)
           \<and> (getProp (JObj kvs) (js ''maxItems'') = JUndefined \<longrightarrow> maxItems cfg = Finite 10)"
proof -
  from toStringJS_printable [OF assms(4)] toStringJS_printable [OF assms(5)]
  obtain mt dt where mt: "toStringJS P (getProp (JObj kvs) (js ''maxItems'')) = Inr mt"
    and dt: "toStringJS P (getProp (JObj kvs) (js ''delayBetweenRequests'')) = Inr dt"
    by blast
  note cfg = validateInput_object [OF assms(1-3) mt dt]
  have absent: "getProp (JObj kvs) (js ''maxItems'') = JUndefined \<Longrightarrow> mt = js ''undefined''"
    using mt by simp
  show ?thesis
    using validateInput_bounds(1) [OF cfg] mt absent
    by (auto simp: cfg clamp_maxItems parseInt_samples)
qed

text \<open>
  C7, as stated for every input, fails: on \<open>{maxItems: {toString: 1}}\<close> the conversion of
  the field to a string inside \<open>parseInt\<close> throws, and no \<open>maxItems\<close> is produced.
\<close>

theorem validateInput_maxItems_unprintable_throws:
  "validateInput samplePlatform
     (JObj [(js ''maxItems'', JObj [(js ''toString'', JNum (Finite 1))])])
   = Inl (TypeError (js ''Cannot convert object to primitive value''))"
  by (simp add: validateInput_def readProp_def getProp_def bindE_def js_def)

text \<open>
  The input of the repository's validator test satisfies the hypotheses of C3 as amended.
\<close>

theorem validateInput_typed_text_fields_witness:
  "textOrAbsent (getProp (JObj [(js ''searchKeyword'', JStr (js ''  test  '')), (js ''maxItems'', JStr (js ''200'')),
                               (js ''outputFormat'', JStr (js ''invalid''))]) (js ''searchKeyword''))
   \<and> textOrAbsent (getProp (JObj [(js ''searchKeyword'', JStr (js ''  test  '')), (js ''maxItems'', JStr (js ''200'')),
                               (js ''outputFormat'', JStr (js ''invalid''))]) (js ''vwCd''))
   \<and> textOrAbsent (getProp (JObj [(js ''searchKeyword'', JStr (js ''  test  '')), (js ''maxItems'', JStr (js ''200'')),
                               (js ''outputFormat'', JStr (js ''invalid''))]) (js ''parentId''))
   \<and> printable (getProp (JObj [(js ''searchKeyword'', JStr (js ''  test  '')), (js ''maxItems'', JStr (js ''200'')),
                               (js ''outputFormat'', JStr (js ''invalid''))]) (js ''maxItems''))
   \<and> printable (getProp (JObj [(js ''searchKeyword'', JStr (js ''  test  '')), (js ''maxItems'', JStr (js ''200'')),
                               (js ''outputFormat'', JStr (js ''invalid''))]) (js ''delayBetweenRequests''))
   \<and> (\<exists>cfg. validateInput samplePlatform
                 (JObj [(js ''searchKeyword'', JStr (js ''  test  '')), (js ''maxItems'', JStr (js ''200'')),
                        (js ''outputFormat'', JStr (js ''invalid''))]) = Inr cfg
           \<and> trim (searchKeyword cfg) = searchKeyword cfg
           \<and> vwCd cfg \<noteq> [] \<and> parentId cfg \<noteq> []
           \<and> (\<exists>n. maxItems cfg = Finite (of_int n) \<and> 1 \<le> n \<and> n \<le> 100)
           \<and> outputFormat cfg \<in> {js ''structured'', js ''raw'', js ''both''}
           \<and> numLeq (Finite 500) (delayBetweenRequests cfg))"
proof -
  let ?X = "JObj [(js ''searchKeyword'', JStr (js ''  test  '')), (js ''maxItems'', JStr (js ''200'')),
                  (js ''outputFormat'', JStr (js ''invalid''))]"
  have h1: "textOrAbsent (getProp ?X (js ''searchKeyword''))"
    and h2: "textOrAbsent (getProp ?X (js ''vwCd''))"
    and h3: "textOrAbsent (getProp ?X (js ''parentId''))"
    and h4: "printable (getProp ?X (js ''maxItems''))"
    and h5: "printable (getProp ?X (js ''delayBetweenRequests''))"
    by (simp_all add: getProp_def js_def)
  from validateInput_typed_text_fields [OF h1 h2 h3 h4 h5, of samplePlatform] h1 h2 h3 h4 h5
  show ?thesis by blast
qed

lemma validateInput_test_input:
  "validateInput samplePlatform
     (JObj [(js ''searchKeyword'', JStr (js ''  test  '')), (js ''maxItems'', JStr (js ''200'')),
            (js ''outputFormat'', JStr (js ''invalid''))])
   = Inr \<lparr> searchKeyword = js ''test'', vwCd = js ''MT_ZTITLE'', parentId = js ''A'',
           maxItems = Finite 100, includeMetadata = True, outputFormat = js ''structured'',
           delayBetweenRequests = Finite 1000 \<rparr>"
proof -
  let ?X = "JObj [(js ''searchKeyword'', JStr (js ''  test  '')), (js ''maxItems'', JStr (js ''200'')),
                  (js ''outputFormat'', JStr (js ''invalid''))]"
  have h: "textOrAbsent (getProp ?X (js ''searchKeyword''))"
          "textOrAbsent (getProp ?X (js ''vwCd''))"
          "textOrAbsent (getProp ?X (js ''parentId''))"
    by (simp_all add: getProp_def js_def)
  have mt: "toStringJS samplePlatform (getProp ?X (js ''maxItems'')) = Inr (js ''200'')"
    by (simp add: getProp_def js_def)
  have dt: "toStringJS samplePlatform (getProp ?X (js ''delayBetweenRequests'')) = Inr (js ''undefined'')"
    by (simp add: getProp_def js_def)
  have fields: "trimOrValue (getProp ?X (js ''searchKeyword'')) [] = js ''test''"
               "trimOrValue (getProp ?X (js ''vwCd'')) (js ''MT_ZTITLE'') = js ''MT_ZTITLE''"
               "trimOrValue (getProp ?X (js ''parentId'')) (js ''A'') = js ''A''"
               "getProp ?X (js ''includeMetadata'') \<noteq> JBool False"
               "getProp ?X (js ''outputFormat'') = JStr (js ''invalid'')"
    by (simp_all add: getProp_def js_def trimOrValue_def trim_def isWhiteSpace_def)
  have fmt: "js ''invalid'' \<notin> set [js ''structured'', js ''raw'', js ''both'']"
    by (simp add: js_def)
  show ?thesis
    unfolding validateInput_object [OF h mt dt] fields
    using fmt fields(4)
    by (simp add: parseInt_samples mathMax_def mathMin_def orDefault_def truthyNum_def)
qed

text \<open>
  \<open>"200"\<close> gives 100, the number 0 gives 10, \<open>"-5"\<close> gives 1, and an absent field gives 10.
\<close>

theorem validateInput_maxItems_clamped_witness:
  "textOrAbsent (getProp (JObj [(js ''maxItems'', JStr (js ''200''))]) (js ''searchKeyword''))
   \<and> textOrAbsent (getProp (JObj [(js ''maxItems'', JStr (js ''200''))]) (js ''vwCd''))
   \<and> textOrAbsent (getProp (JObj [(js ''maxItems'', JStr (js ''200''))]) (js ''parentId''))
   \<and> printable (getProp (JObj [(js ''maxItems'', JStr (js ''200''))]) (js ''maxItems''))
   \<and> printable (getProp (JObj [(js ''maxItems'', JStr (js ''200''))]) (js ''delayBetweenRequests''))
   \<and> (\<exists>cfg. validateInput samplePlatform (JObj [(js ''maxItems'', JStr (js ''200''))]) = Inr cfg
          \<and> maxItems cfg = Finite 100)
   \<and> (\<exists>cfg. validateInput samplePlatform (JObj [(js ''maxItems'', JNum (Finite 0))]) = Inr cfg
          \<and> maxItems cfg = Finite 10)
   \<and> (\<exists>cfg. validateInput samplePlatform (JObj [(js ''maxItems'', JStr (js ''-5''))]) = Inr cfg
          \<and> maxItems cfg = Finite 1)
   \<and> getProp (JObj []) (js ''maxItems'') = JUndefined
   \<and> (\<exists>cfg. validateInput samplePlatform (JObj []) = Inr cfg \<and> maxItems cfg = Finite 10)"
proof -
  have t: "textOrAbsent (getProp (JObj [(js ''maxItems'', v)]) (js ''searchKeyword''))"
          "textOrAbsent (getProp (JObj [(js ''maxItems'', v)]) (js ''vwCd''))"
          "textOrAbsent (getProp (JObj [(js ''maxItems'', v)]) (js ''parentId''))"
          "getProp (JObj [(js ''maxItems'', v)]) (js ''maxItems'') = v"
          "printable (getProp (JObj [(js ''maxItems'', v)]) (js ''delayBetweenRequests''))" for v
    by (simp_all add: getProp_def js_def)
  have p: "printable (getProp (JObj [(js ''maxItems'', JStr s)]) (js ''maxItems''))"
          "printable (getProp (JObj [(js ''maxItems'', JNum x)]) (js ''maxItems''))" for s x
    by (simp_all add: t(4))
  have e: "textOrAbsent (getProp (JObj []) k)" "getProp (JObj []) k = JUndefined"
          "printable (getProp (JObj []) k)" for k
    by (simp_all add: getProp_def)
  have zero: "numberToString samplePlatform (Finite 0) = showInt 0"
    by (simp add: samplePlatform_def integerText_def)
  from validateInput_maxItems_clamped [where kvs = "[(js ''maxItems'', JStr (js ''200''))]" and P = samplePlatform,
         OF t(1-3) p(1) t(5)]
  have 1: "\<exists>cfg. validateInput samplePlatform (JObj [(js ''maxItems'', JStr (js ''200''))]) = Inr cfg
             \<and> maxItems cfg = Finite 100"
    by (auto simp: t(4) parseInt_samples)
  from validateInput_maxItems_clamped [where kvs = "[(js ''maxItems'', JNum (Finite 0))]" and P = samplePlatform,
         OF t(1-3) p(2) t(5)]
  have 2: "\<exists>cfg. validateInput samplePlatform (JObj [(js ''maxItems'', JNum (Finite 0))]) = Inr cfg
             \<and> maxItems cfg = Finite 10"
    by (auto simp: t(4) zero parseInt_samples)
  from validateInput_maxItems_clamped [where kvs = "[(js ''maxItems'', JStr (js ''-5''))]" and P = samplePlatform,
         OF t(1-3) p(1) t(5)]
  have 3: "\<exists>cfg. validateInput samplePlatform (JObj [(js ''maxItems'', JStr (js ''-5''))]) = Inr cfg
             \<and> maxItems cfg = Finite 1"
    by (auto simp: t(4) parseInt_samples)
  from validateInput_maxItems_clamped [OF e(1) e(1) e(1) e(3) e(3), where P = samplePlatform]
  have 4: "\<exists>cfg. validateInput samplePlatform (JObj []) = Inr cfg \<and> maxItems cfg = Finite 10"
    by (auto simp: e(2))
  from 1 2 3 4 t(1-3) p(1) t(5) e(2) show ?thesis by blast
qed

lemma validateInput_defaults:
  assumes "textOrAbsent (getProp (JObj kvs) (js ''searchKeyword''))"
      and "textOrAbsent (getProp (JObj kvs) (js ''vwCd''))"
      and "textOrAbsent (getProp (JObj kvs) (js ''parentId''))"
      and "getProp (JObj kvs) (js ''maxItems'') = JUndefined"
      and "getProp (JObj kvs) (js ''delayBetweenRequests'') = JUndefined"
  shows "validateInput P (JObj kvs) =
     Inr \<lparr> searchKeyword = trimOrValue (getProp (JObj kvs) (js ''searchKeyword'')) [],
             vwCd = trimOrValue (getProp (JObj kvs) (js ''vwCd'')) (js ''MT_ZTITLE''),
             parentId = trimOrValue (getProp (JObj kvs) (js ''parentId'')) (js ''A''),
             maxItems = Finite 10,
             includeMetadata = (getProp (JObj kvs) (js ''includeMetadata'') \<noteq> JBool False),
             outputFormat =
               (case getProp (JObj kvs) (js ''outputFormat'') of
                  JStr s \<Rightarrow> if s \<in> set [js ''structured'', js ''raw'', js ''both''] then s
                            else js ''structured''
                | _ \<Rightarrow> js ''structured''),
             delayBetweenRequests = Finite 1000
           \<rparr>"
proof -
  have mt: "toStringJS P (getProp (JObj kvs) (js ''maxItems'')) = Inr (js ''undefined'')"
    and dt: "toStringJS P (getProp (JObj kvs) (js ''delayBetweenRequests'')) = Inr (js ''undefined'')"
    using assms(4,5) by simp_all
  have dflt: "mathMin (mathMax (orDefault NaN (Finite 10)) (Finite 1)) (Finite 100) = Finite 10"
             "mathMax (orDefault NaN (Finite 1000)) (Finite 500) = Finite 1000"
    by (simp_all add: mathMin_def mathMax_def orDefault_def truthyNum_def)
  show ?thesis
    unfolding validateInput_object [OF assms(1-3) mt dt] parseInt_samples dflt by (rule refl)
qed

subsection \<open>Normalization\<close>

lemma normalizeRows_stops:
  assumes "map (normalizeItem P srcId) pre = map Inr recs"
      and "normalizeItem P srcId bad = Inl e"
  shows "normalizeRows P srcId (pre @ bad # post) acc = (Some e, acc @ recs)"
  using assms
proof (induction pre arbitrary: acc recs)
  case Nil
  then show ?case by simp
next
  case (Cons row pre)
  then obtain r rs where recs: "recs = r # rs" by (cases recs) auto
  with Cons.prems have "normalizeItem P srcId row = Inr r"
    and "map (normalizeItem P srcId) pre = map Inr rs" by auto
  with Cons.IH [of rs "acc @ [r]"] Cons.prems(2) recs show ?case by simp
qed

lemma normalizeRows_all:
  "map (normalizeItem P srcId) rows = map Inr recs \<Longrightarrow>
   normalizeRows P srcId rows acc = (None, acc @ recs)"
proof (induction rows arbitrary: acc recs)
  case Nil
  then show ?case by simp
next
  case (Cons row rows)
  then obtain r rs where recs: "recs = r # rs" by (cases recs) auto
  with Cons.prems have "normalizeItem P srcId row = Inr r"
    and "map (normalizeItem P srcId) rows = map Inr rs" by auto
  with Cons.IH [of rs "acc @ [r]"] recs show ?case by simp
qed

lemma normalizeStatisticalData_rowsOf:
  "normalizeStatisticalData P rawData meta srcId =
     (case normalizeRows P srcId (rowsOf rawData) [] of
        (None, normalizedData) \<Rightarrow> normalizedData
      | (Some e, normalizedData) \<Rightarrow>
          normalizedData @ [errorRecord P srcId (message e) (JArr (rowsOf rawData))])"
  unfolding normalizeStatisticalData_def rowsOf_def Let_def by (rule refl)

lemma sample_parseFloat_absent: "parseFloat samplePlatform (js ''undefined'') = NaN"
  by (simp add: samplePlatform_def parseInt_samples)

lemma named_row_fields:
  "readProp (JObj [(js ''TBL_NM'', v)]) (js ''TBL_NM'') = Inr v"
  "getProp (JObj [(js ''TBL_NM'', v)]) (js ''DT'') = JUndefined"
  "getProp (JObj [(js ''TBL_NM'', v)]) (js ''UNIT_NM'') = JUndefined"
  "getProp (JObj [(js ''TBL_NM'', v)]) (js ''PRD_DE'') = JUndefined"
  "getProp (JObj [(js ''TBL_NM'', v)]) (js ''C1_NM'') = JUndefined"
  "getProp (JObj [(js ''TBL_NM'', v)]) (js ''C2_NM'') = JUndefined"
  "getProp (JObj [(js ''TBL_NM'', v)]) (js ''C3_NM'') = JUndefined"
  "getProp (JObj [(js ''TBL_NM'', v)]) (js ''ITM_NM'') = JUndefined"
  "getProp (JObj [(js ''TBL_NM'', v)]) (js ''LST_CHN_DE'') = JUndefined"
  by (simp_all add: readProp_def getProp_def js_def)

lemma sample_gdp_type: "determineDataType samplePlatform (JStr (js ''GDP'')) = Inr (js ''economic'')"
  by (simp add: determineDataType_def samplePlatform_def asciiLower_def Let_def js_def)

lemma sample_named_row:
  "\<exists>r. normalizeItem samplePlatform srcId (JObj [(js ''TBL_NM'', JStr (js ''GDP''))]) = Inr r
       \<and> dataType r = js ''economic''"
proof -
  have gdp: "js ''GDP'' \<noteq> []" by (simp add: js_def)
  show ?thesis
    unfolding normalizeItem_def named_row_fields
    by (simp add: bindE_def Let_def orElse_def gdp regionOf_def sample_gdp_type
          sample_parseFloat_absent truthyNum_def)
qed

lemma sample_null_row:
  "normalizeItem P srcId JNull
     = Inl (TypeError (js ''Cannot read properties of null (reading '' @ [0x27] @ js ''TBL_NM''
                         @ [0x27] @ js '')''))"
  by (simp add: normalizeItem_def readProp_def bindE_def)

lemma sample_numeric_name:
  "normalizeItem samplePlatform srcId (JObj [(js ''TBL_NM'', JNum (Finite 5))])
     = Inl (TypeError (js ''statName.toLowerCase is not a function''))"
proof -
  show ?thesis
    unfolding normalizeItem_def named_row_fields
    by (simp add: bindE_def Let_def orElse_def truthyNum_def regionOf_def determineDataType_def)
qed

text \<open>
  C1, as amended. When a row of the batch makes the row callback throw, and the rows before
  it were normalized to \<open>recs\<close>, \<open>normalizeStatisticalData\<close> returns \<open>recs\<close> followed by
  exactly one sentinel record: its \<open>dataType\<close> is \<open>error\<close>, its \<open>metadata.error\<close> is the
  exception's message and its \<open>metadata.rawData\<close> is the array of rows (the input itself,
  or the one-element array made of an input that is not an array). The rows after the
  failing one are not read, and no exception leaves the function: its result is a list.
\<close>

theorem normalizeStatisticalData_failure:
  assumes "rowsOf rawData = pre @ bad # post"
      and "map (normalizeItem P srcId) pre = map Inr recs"
      and "normalizeItem P srcId bad = Inl e"
  shows "normalizeStatisticalData P rawData meta srcId
           = recs @ [errorRecord P srcId (message e) (JArr (rowsOf rawData))]
       \<and> dataType (errorRecord P srcId (message e) (JArr (rowsOf rawData))) = js ''error''
       \<and> getProp (metadata (errorRecord P srcId (message e) (JArr (rowsOf rawData)))) (js ''error'')
           = JStr (message e)
       \<and> getProp (metadata (errorRecord P srcId (message e) (JArr (rowsOf rawData)))) (js ''rawData'')
           = JArr (rowsOf rawData)"
proof -
  have "normalizeRows P srcId (rowsOf rawData) [] = (Some e, recs)"
    using normalizeRows_stops [OF assms(2,3), of post "[]"] assms(1) by simp
  then show ?thesis
    by (simp add: normalizeStatisticalData_rowsOf errorRecord_def getProp_def js_def)
qed

text \<open>
  C1, as stated, fails: for a batch of a well-formed row followed by \<open>null\<close> the result has
  two records, the first row's record and then the sentinel. The partial output is kept.
\<close>

theorem normalizeStatisticalData_keeps_partial_output:
  "map dataType
     (normalizeStatisticalData samplePlatform
        (JArr [JObj [(js ''TBL_NM'', JStr (js ''GDP''))], JNull]) JNull (JStr (js ''T1'')))
   = [js ''economic'', js ''error'']"
proof -
  obtain r where r: "normalizeItem samplePlatform (JStr (js ''T1''))
                       (JObj [(js ''TBL_NM'', JStr (js ''GDP''))]) = Inr r"
    and t: "dataType r = js ''economic''"
    using sample_named_row by blast
  show ?thesis
    by (simp add: normalizeStatisticalData_def r t sample_null_row errorRecord_def)
qed

text \<open>
  The hypotheses of C1 as amended hold for a batch whose second row is \<open>null\<close>, and for a
  single row, not in an array, whose name field is a number.
\<close>

theorem normalizeStatisticalData_failure_witness:
  "\<exists>r e e'.
     rowsOf (JArr [JObj [(js ''TBL_NM'', JStr (js ''GDP''))], JNull])
       = [JObj [(js ''TBL_NM'', JStr (js ''GDP''))]] @ JNull # []
   \<and> map (normalizeItem samplePlatform (JStr (js ''T1''))) [JObj [(js ''TBL_NM'', JStr (js ''GDP''))]]
       = map Inr [r]
   \<and> normalizeItem samplePlatform (JStr (js ''T1'')) JNull = Inl e
   \<and> normalizeStatisticalData samplePlatform (JArr [JObj [(js ''TBL_NM'', JStr (js ''GDP''))], JNull])
         JNull (JStr (js ''T1''))
       = [r] @ [errorRecord samplePlatform (JStr (js ''T1'')) (message e)
                  (JArr (rowsOf (JArr [JObj [(js ''TBL_NM'', JStr (js ''GDP''))], JNull])))]
   \<and> rowsOf (JObj [(js ''TBL_NM'', JNum (Finite 5))]) = [] @ JObj [(js ''TBL_NM'', JNum (Finite 5))] # []
   \<and> normalizeItem samplePlatform (JStr (js ''T1'')) (JObj [(js ''TBL_NM'', JNum (Finite 5))]) = Inl e'
   \<and> normalizeStatisticalData samplePlatform (JObj [(js ''TBL_NM'', JNum (Finite 5))]) JNull (JStr (js ''T1''))
       = [] @ [errorRecord samplePlatform (JStr (js ''T1'')) (message e')
                 (JArr (rowsOf (JObj [(js ''TBL_NM'', JNum (Finite 5))])))]"
proof -
  let ?P = samplePlatform and ?id = "JStr (js ''T1'')"
  let ?row = "JObj [(js ''TBL_NM'', JStr (js ''GDP''))]"
  let ?odd = "JObj [(js ''TBL_NM'', JNum (Finite 5))]"
  have a1: "rowsOf (JArr [?row, JNull]) = [?row] @ JNull # []"
    by (simp add: rowsOf_def)
  obtain r where r: "normalizeItem ?P ?id ?row = Inr r"
    using sample_named_row by blast
  then have a2: "map (normalizeItem ?P ?id) [?row] = map Inr [r]" by simp
  obtain e where e: "normalizeItem ?P ?id JNull = Inl e"
    unfolding sample_null_row by blast
  have b1: "rowsOf ?odd = [] @ ?odd # []"
    by (simp add: rowsOf_def)
  have b2: "map (normalizeItem ?P ?id) [] = map Inr []" by simp
  obtain e' where e': "normalizeItem ?P ?id ?odd = Inl e'"
    unfolding sample_numeric_name by blast
  from normalizeStatisticalData_failure [OF a1 a2 e, of JNull]
       normalizeStatisticalData_failure [OF b1 b2 e', of JNull]
       a1 a2 e b1 e'
  show ?thesis by blast
qed

subsection \<open>Traces\<close>


lemma extends_refl: "extends Q tr tr"
  by (simp add: extends_def)

lemma extends_trans: "extends Q a b \<Longrightarrow> extends Q b c \<Longrightarrow> extends Q a c"
  by (auto simp: extends_def)

lemma extends_snoc: "Q ev \<Longrightarrow> extends Q tr (tr @ [ev])"
  by (simp add: extends_def)

lemma extends_set: "extends Q tr tr' \<Longrightarrow> ev \<in> set tr' \<Longrightarrow> ev \<in> set tr \<or> Q ev"
  by (auto simp: extends_def list_all_iff)

lemma push_extends:
  "Q (Emitted r) \<Longrightarrow> Q (Refused r) \<Longrightarrow> extends Q tr (snd (push env r tr))"
  by (cases "pushData env tr r") (simp_all add: push_def extends_snoc)

lemma pushAll_extends:
  "(\<forall>r \<in> set rs. Q (Emitted r) \<and> Q (Refused r)) \<Longrightarrow> extends Q tr (snd (pushAll env rs tr))"
proof (induction rs arbitrary: tr)
  case Nil
  then show ?case by (simp add: extends_refl)
next
  case (Cons r rs)
  have a: "extends Q tr (snd (push env r tr))" using Cons.prems by (simp add: push_extends)
  show ?case
  proof (cases "push env r tr")
    case (Pair res tr')
    show ?thesis
    proof (cases res)
      case None
      with Pair Cons.IH [of tr'] Cons.prems a show ?thesis
        by (auto intro: extends_trans)
    next
      case (Some e)
      with Pair a show ?thesis by simp
    qed
  qed
qed

lemma pushAll_accepted:
  "acceptingSink env \<Longrightarrow> pushAll env rs tr = (None, tr @ map Emitted rs)"
  by (induction rs arbitrary: tr) (simp_all add: push_def acceptingSink_def)

subsection \<open>Demo mode\<close>

lemma runDemoMode_extends: "extends demoEvent tr (snd (runDemoMode env P cfg tr))"
proof -
  let ?rs = "map DataPoint (demoSelection P cfg)"
  have a: "extends demoEvent tr (snd (pushAll env ?rs tr))"
    by (rule pushAll_extends) (simp add: demoSummary_def)
  show ?thesis
  proof (cases "pushAll env ?rs tr")
    case (Pair res tr')
    show ?thesis
    proof (cases res)
      case None
      have "extends demoEvent tr' (snd (push env (demoSummary P cfg (length (demoSelection P cfg))) tr'))"
        by (rule push_extends) (simp_all add: demoSummary_def)
      with a Pair None show ?thesis
        by (auto simp: runDemoMode_def Let_def intro: extends_trans)
    next
      case (Some e)
      with a Pair show ?thesis by (simp add: runDemoMode_def Let_def)
    qed
  qed
qed

lemma runDemoMode_accepted:
  "acceptingSink env \<Longrightarrow> runDemoMode env P cfg tr = (None, tr @ demoEvents P cfg)"
  by (simp add: runDemoMode_def Let_def pushAll_accepted demoEvents_def push_def acceptingSink_def comp_def)











subsection \<open>Errors of the table listing\<close>

lemma includes_str_middle: "includes_str (a @ k @ b) k"
  by (simp add: includes_str_sublist sublist_appendI)

lemma kosis_prefix: "js ''KOSIS API Error ('' @ rest = js ''KOSIS '' @ js ''API'' @ (js '' Error ('' @ rest)"
  by (simp add: js_def)

lemma handleApiError_API:
  assumes "describable err"
  shows "includes_str (message (handleApiError P err ctx)) (js ''API'')"
proof (cases err)
  case (WithResponse status body)
  with assms obtain statusText msgText
    where "toStringJS P status = Inr statusText" "toStringJS P (apiErrorMsgOf body) = Inr msgText"
    using toStringJS_printable by (metis describable.simps(1))
  with WithResponse show ?thesis
    unfolding handleApiError_def
    by (simp only: axios_error.case sum.case message.simps append_assoc kosis_prefix includes_str_middle)
next
  case NoResponse
  then show ?thesis
    unfolding handleApiError_def
    by (simp only: axios_error.case message.simps append_assoc kosis_prefix includes_str_middle)
next
  case (PlainError m)
  then show ?thesis
    unfolding handleApiError_def
    by (simp only: axios_error.case message.simps append_assoc kosis_prefix includes_str_middle)
qed

lemma handleApiError_opaque:
  assumes "\<not> describable err"
  shows "handleApiError P err ctx = TypeError (js ''Cannot convert object to primitive value'')"
proof (cases err)
  case (WithResponse status body)
  show ?thesis
  proof (cases "printable status")
    case True
    with assms WithResponse have "\<not> printable (apiErrorMsgOf body)" by simp
    from toStringJS_unprintable [OF this, of P] toStringJS_printable [OF True, of P] WithResponse
    show ?thesis by (auto simp: handleApiError_def)
  next
    case False
    from toStringJS_unprintable [OF this, of P] WithResponse
    show ?thesis by (simp add: handleApiError_def)
  qed
qed (use assms in simp_all)

lemma getStatsList_result_API:
  "getStatsList_result P r = Inl e \<Longrightarrow> describableResult r \<Longrightarrow> includes_str (message e) (js ''API'')"
  by (cases r) (auto simp: getStatsList_result_def handleApiError_API split: if_splits)

lemma getStatsList_result_opaque:
  "getStatsList_result P r = Inl e \<Longrightarrow> \<not> describableResult r
     \<Longrightarrow> e = TypeError (js ''Cannot convert object to primitive value'')"
  by (cases r) (auto simp: getStatsList_result_def handleApiError_opaque)

lemma liveRun_listing_fails:
  "getStatsList_result P
     (listResponse env [ListCalled (buildSearchParams cfg)] (buildSearchParams cfg)) = Inl e
   \<Longrightarrow> liveRun env P cfg = (Some e, [ListCalled (buildSearchParams cfg)])"
  by (simp add: liveRun_def Let_def)

lemma mainLogic_live_failure:
  assumes "validateInput P (orElse (getInput env) (JObj [])) = Inr cfg"
      and "truthy (orElse (envApiKey env) (getValue env))"
      and "liveRun env P cfg = (Some e, tr)"
  shows "mainLogic env P =
           (if authFlavoured (message e) then runDemoMode env P cfg tr
            else case push env (TopError (message e)
                          (js ''An error occurred while processing. Falling back to demo mode.'')
                          cfg (now P)) tr of
                   (Some e', tr') \<Rightarrow> (Some e', tr')
                 | (None, tr') \<Rightarrow> runDemoMode env P cfg tr')"
  using assms by (simp add: mainLogic_def Let_def)

lemma demoEvent_not_error:
  "demoEvent ev \<Longrightarrow> ev = Emitted r \<or> ev = Refused r \<Longrightarrow> recordType r \<noteq> Some (js ''error'')"
  by (cases r) (auto simp: js_def)

text \<open>
  C4, as amended. When the failure of the listing request can be described, that is, it is
  not an HTTP error response whose status or whose provider message (\<open>data.message\<close>, else
  \<open>data.error\<close>) is or contains an object with an own \<open>toString\<close> property, the error
  \<open>handleApiError\<close> throws, of whichever of its three kinds, has a message that contains
  \<open>API\<close>, and so has the error of \<open>getStatsList\<close>. A run whose listing fails so goes
  from the outer \<open>catch\<close> straight to demo mode, and no record of type \<open>error\<close> is
  handed to the sink in such a run. A failure that cannot be described makes
  \<open>getStatsList\<close> throw the TypeError of the conversion instead.
\<close>

theorem listing_errors_take_auth_branch:
  "(describable err \<longrightarrow> includes_str (message (handleApiError P err ctx)) (js ''API''))
   \<and> (getStatsList_result P r = Inl e \<and> describableResult r
        \<longrightarrow> includes_str (message e) (js ''API''))
   \<and> (getStatsList_result P r = Inl e \<and> \<not> describableResult r
        \<longrightarrow> e = TypeError (js ''Cannot convert object to primitive value''))
   \<and> (validateInput P (orElse (getInput env) (JObj [])) = Inr cfg
        \<and> truthy (orElse (envApiKey env) (getValue env))
        \<and> getStatsList_result P
            (listResponse env [ListCalled (buildSearchParams cfg)] (buildSearchParams cfg)) = Inl e'
        \<and> describableResult
            (listResponse env [ListCalled (buildSearchParams cfg)] (buildSearchParams cfg))
      \<longrightarrow> mainLogic env P = runDemoMode env P cfg [ListCalled (buildSearchParams cfg)]
          \<and> (\<forall>ev \<in> set (snd (mainLogic env P)). \<forall>rec.
                ev = Emitted rec \<or> ev = Refused rec \<longrightarrow> recordType rec \<noteq> Some (js ''error'')))"
proof (intro conjI impI)
  assume "describable err"
  then show "includes_str (message (handleApiError P err ctx)) (js ''API'')"
    by (rule handleApiError_API)
next
  assume "getStatsList_result P r = Inl e \<and> describableResult r"
  then show "includes_str (message e) (js ''API'')" by (auto intro: getStatsList_result_API)
next
  assume "getStatsList_result P r = Inl e \<and> \<not> describableResult r"
  then show "e = TypeError (js ''Cannot convert object to primitive value'')"
    by (auto intro: getStatsList_result_opaque)
next
  assume h: "validateInput P (orElse (getInput env) (JObj [])) = Inr cfg
        \<and> truthy (orElse (envApiKey env) (getValue env))
        \<and> getStatsList_result P
            (listResponse env [ListCalled (buildSearchParams cfg)] (buildSearchParams cfg)) = Inl e'
        \<and> describableResult
            (listResponse env [ListCalled (buildSearchParams cfg)] (buildSearchParams cfg))"
  then have api: "authFlavoured (message e')"
    using getStatsList_result_API [of P _ e'] by (auto simp: authFlavoured_def)
  from h have live: "liveRun env P cfg = (Some e', [ListCalled (buildSearchParams cfg)])"
    by (simp add: liveRun_listing_fails)
  from h live api
  show run: "mainLogic env P = runDemoMode env P cfg [ListCalled (buildSearchParams cfg)]"
    by (simp add: mainLogic_live_failure)
  show "\<forall>ev \<in> set (snd (mainLogic env P)). \<forall>rec.
          ev = Emitted rec \<or> ev = Refused rec \<longrightarrow> recordType rec \<noteq> Some (js ''error'')"
  proof (intro ballI allI impI)
    fix ev rec
    assume ev: "ev \<in> set (snd (mainLogic env P))" and rec: "ev = Emitted rec \<or> ev = Refused rec"
    from ev run runDemoMode_extends [of "[ListCalled (buildSearchParams cfg)]" env P cfg]
    have "ev \<in> set [ListCalled (buildSearchParams cfg)] \<or> demoEvent ev"
      by (auto dest: extends_set)
    with rec have "demoEvent ev" by auto
    then show "recordType rec \<noteq> Some (js ''error'')" using rec by (rule demoEvent_not_error)
  qed
qed



lemma fetchEvent_not_error:
  "fetchEvent ev \<Longrightarrow> ev = Emitted r \<or> ev = Refused r \<Longrightarrow> recordType r \<noteq> Some (js ''error'')"
  by (cases r) (auto simp: js_def)

lemma push_shape:
  "push env r tr = (res, tr') \<Longrightarrow>
     (res = None \<and> tr' = tr @ [Emitted r]) \<or> (\<exists>m. res = Some (Error m) \<and> tr' = tr @ [Refused r])"
  by (auto simp: push_def split: option.splits)

lemma emitDataPoints_shape:
  "emitDataPoints env dps st = (res, st') \<Longrightarrow>
     \<exists>evs. trace st' = trace st @ evs \<and> list_all fetchEvent evs
          \<and> processedTables st' = processedTables st"
proof (induction dps arbitrary: st)
  case Nil
  then show ?case by auto
next
  case (Cons dp dps)
  obtain r tr where p: "push env (DataPoint dp) (trace st) = (r, tr)" by (cases "push env (DataPoint dp) (trace st)")
  from push_shape [OF p] show ?case
  proof
    assume a: "r = None \<and> tr = trace st @ [Emitted (DataPoint dp)]"
    with p Cons.prems
    have "emitDataPoints env dps (st\<lparr>totalDataPoints := totalDataPoints st + 1, trace := tr\<rparr>) = (res, st')"
      by simp
    from Cons.IH [OF this] a show ?thesis by auto
  next
    assume "\<exists>m. r = Some (Error m) \<and> tr = trace st @ [Refused (DataPoint dp)]"
    with p Cons.prems show ?thesis by auto
  qed
qed

lemma processTableTry_shape:
  assumes "processTableTry env P cfg table st = (res, st')"
  shows "\<exists>evs. list_all fetchEvent evs \<and> processedTables st' = processedTables st + 1
           \<and> trace st' = trace st @ evs @ (if res = None then [Slept (delayBetweenRequests cfg)] else [])"
  using assms
  unfolding processTableTry_def Let_def
  apply (auto split: sum.splits prod.splits option.splits if_splits dest!: push_shape emitDataPoints_shape)
  done

lemma empty_input:
  "validateInput P (JObj []) = Inr defaultConfig"
proof -
  have h: "textOrAbsent (getProp (JObj []) k)" "getProp (JObj []) k = JUndefined" for k
    by (simp_all add: getProp_def)
  show ?thesis
    unfolding validateInput_defaults [OF h(1) h(1) h(1) h(2) h(2)] defaultConfig_def
    by (simp add: getProp_def trimOrValue_def)
qed

lemma liveEnv_input [simp]:
  "validateInput P (orElse (getInput liveEnv) (JObj [])) = Inr defaultConfig"
  "validateInput P (orElse (getInput unauthorizedEnv) (JObj [])) = Inr defaultConfig"
  "validateInput P (orElse (getInput nullTableEnv) (JObj [])) = Inr defaultConfig"
  "validateInput P (orElse (getInput opaqueMessageEnv) (JObj [])) = Inr defaultConfig"
  by (simp_all add: liveEnv_def unauthorizedEnv_def nullTableEnv_def opaqueMessageEnv_def
        sampleEnv_def orElse_def empty_input)

lemma liveEnv_key [simp]:
  "truthy (orElse (envApiKey liveEnv) (getValue liveEnv))"
  "truthy (orElse (envApiKey unauthorizedEnv) (getValue unauthorizedEnv))"
  "truthy (orElse (envApiKey nullTableEnv) (getValue nullTableEnv))"
  "truthy (orElse (envApiKey opaqueMessageEnv) (getValue opaqueMessageEnv))"
  by (simp_all add: liveEnv_def unauthorizedEnv_def nullTableEnv_def opaqueMessageEnv_def
        sampleEnv_def orElse_def js_def)

lemma liveEnv_sink [simp]:
  "acceptingSink liveEnv" "acceptingSink unauthorizedEnv" "acceptingSink nullTableEnv"
  "acceptingSink opaqueMessageEnv"
  by (simp_all add: liveEnv_def unauthorizedEnv_def nullTableEnv_def opaqueMessageEnv_def
        sampleEnv_def acceptingSink_def)

lemma sample_status_text: "numberToString samplePlatform (Finite 401) = js ''401''"
  by (simp add: samplePlatform_def integerText_def showInt_def showNat.simps js_def)

lemma unauthorized_message:
  "apiErrorMsgOf (JObj [(js ''message'', JStr (js ''Unauthorized''))]) = JStr (js ''Unauthorized'')"
  by (simp add: apiErrorMsgOf_def optProp_def getProp_def orElse_def js_def)

lemma unauthorized_listing:
  "getStatsList_result samplePlatform
     (listResponse unauthorizedEnv [ListCalled (buildSearchParams defaultConfig)]
        (buildSearchParams defaultConfig))
   = Inl (Error (js ''KOSIS API Error (getStatsList): Status 401 - Unauthorized''))"
  "describableResult
     (listResponse unauthorizedEnv [ListCalled (buildSearchParams defaultConfig)]
        (buildSearchParams defaultConfig))"
  by (simp_all add: unauthorizedEnv_def getStatsList_result_def handleApiError_def
        unauthorized_message sample_status_text, simp add: js_def)

lemma opaque_message:
  "apiErrorMsgOf (JObj [(js ''message'', JObj [(js ''toString'', JNum (Finite 1))])])
     = JObj [(js ''toString'', JNum (Finite 1))]"
  by (simp add: apiErrorMsgOf_def optProp_def getProp_def orElse_def js_def)

lemma opaque_listing:
  "getStatsList_result samplePlatform
     (listResponse opaqueMessageEnv [ListCalled (buildSearchParams defaultConfig)]
        (buildSearchParams defaultConfig))
   = Inl (TypeError (js ''Cannot convert object to primitive value''))"
  "\<not> describableResult
     (listResponse opaqueMessageEnv [ListCalled (buildSearchParams defaultConfig)]
        (buildSearchParams defaultConfig))"
  by (simp_all add: opaqueMessageEnv_def getStatsList_result_def handleApiError_def opaque_message)

lemma opaque_listing_fails:
  "\<exists>e. getStatsList_result samplePlatform
         (listResponse opaqueMessageEnv [ListCalled (buildSearchParams defaultConfig)]
            (buildSearchParams defaultConfig)) = Inl e"
  "\<not> describableResult
     (listResponse opaqueMessageEnv [ListCalled (buildSearchParams defaultConfig)]
        (buildSearchParams defaultConfig))"
  by (simp_all add: opaque_listing)

lemma nullTable_liveRun:
  "liveRun nullTableEnv samplePlatform defaultConfig
   = (Some (TypeError (js ''Cannot read properties of null (reading '' @ [0x27] @ js ''TBL_ID'' @ [0x27] @ js '')'')),
      [ListCalled (buildSearchParams defaultConfig)])"
  by (simp add: liveRun_def nullTableEnv_def liveEnv_def sampleEnv_def getStatsList_result_def isArray_def
        lengthProp_def tablesToProcess_def sliceTo_def defaultConfig_def processTable_def
        processTableTry_def tableIdOf_def readProp_def bindE_def Let_def)

text \<open>
  A listing answered with HTTP 401 and the message \<open>Unauthorized\<close>, and one answered with
  HTTP 500 and a message that cannot be converted to a string.
\<close>

theorem listing_errors_take_auth_branch_witness:
  "describable (WithResponse (JNum (Finite 401)) (JObj [(js ''message'', JStr (js ''Unauthorized''))]))
   \<and> getStatsList_result samplePlatform
     (listResponse unauthorizedEnv [ListCalled (buildSearchParams defaultConfig)]
        (buildSearchParams defaultConfig))
     = Inl (Error (js ''KOSIS API Error (getStatsList): Status 401 - Unauthorized''))
   \<and> describableResult
       (listResponse unauthorizedEnv [ListCalled (buildSearchParams defaultConfig)]
          (buildSearchParams defaultConfig))
   \<and> includes_str (js ''KOSIS API Error (getStatsList): Status 401 - Unauthorized'') (js ''API'')
   \<and> validateInput samplePlatform (orElse (getInput unauthorizedEnv) (JObj [])) = Inr defaultConfig
   \<and> truthy (orElse (envApiKey unauthorizedEnv) (getValue unauthorizedEnv))
   \<and> mainLogic unauthorizedEnv samplePlatform
       = runDemoMode unauthorizedEnv samplePlatform defaultConfig
           [ListCalled (buildSearchParams defaultConfig)]
   \<and> getStatsList_result samplePlatform
     (listResponse opaqueMessageEnv [ListCalled (buildSearchParams defaultConfig)]
        (buildSearchParams defaultConfig))
     = Inl (TypeError (js ''Cannot convert object to primitive value''))
   \<and> \<not> describableResult
       (listResponse opaqueMessageEnv [ListCalled (buildSearchParams defaultConfig)]
          (buildSearchParams defaultConfig))"
proof -
  let ?e = "Error (js ''KOSIS API Error (getStatsList): Status 401 - Unauthorized'')"
  let ?err = "WithResponse (JNum (Finite 401)) (JObj [(js ''message'', JStr (js ''Unauthorized''))])"
  let ?r = "listResponse unauthorizedEnv [ListCalled (buildSearchParams defaultConfig)]
              (buildSearchParams defaultConfig)"
  let ?r' = "listResponse opaqueMessageEnv [ListCalled (buildSearchParams defaultConfig)]
               (buildSearchParams defaultConfig)"
  have d: "describable ?err" by (simp add: unauthorized_message)
  from listing_errors_take_auth_branch
         [where err = ?err and P = samplePlatform and ctx = "js ''getStatsList''" and r = ?r
            and e = ?e and env = unauthorizedEnv and cfg = defaultConfig and e' = ?e]
       d unauthorized_listing
  have 1: "includes_str (js ''KOSIS API Error (getStatsList): Status 401 - Unauthorized'') (js ''API'')
         \<and> mainLogic unauthorizedEnv samplePlatform
               = runDemoMode unauthorizedEnv samplePlatform defaultConfig
                   [ListCalled (buildSearchParams defaultConfig)]"
    by simp
  obtain e where e: "getStatsList_result samplePlatform ?r' = Inl e"
    using opaque_listing_fails by blast
  from listing_errors_take_auth_branch
         [where err = ?err and P = samplePlatform and ctx = "js ''getStatsList''" and r = ?r'
            and e = e and env = unauthorizedEnv and cfg = defaultConfig and e' = ?e]
       e opaque_listing_fails
  have 2: "getStatsList_result samplePlatform ?r'
             = Inl (TypeError (js ''Cannot convert object to primitive value''))"
    by simp
  from 1 2 d unauthorized_listing opaque_listing_fails show ?thesis by simp
qed

text \<open>
  C4, as stated, fails: when the listing is answered with HTTP 500 and the body
  \<open>{message: {toString: 1}}\<close>, the template literal of \<open>handleApiError\<close> throws while it
  converts the provider's message, \<open>getStatsList\<close> fails with a TypeError whose message
  contains none of \<open>API\<close>, \<open>401\<close> and \<open>403\<close>, and the outer \<open>catch\<close> emits the record
  of type \<open>error\<close> before it falls back to demo mode.
\<close>

theorem listing_error_without_API:
  "getStatsList_result samplePlatform
     (listResponse opaqueMessageEnv [ListCalled (buildSearchParams defaultConfig)]
        (buildSearchParams defaultConfig))
     = Inl (TypeError (js ''Cannot convert object to primitive value''))
   \<and> \<not> includes_str (js ''Cannot convert object to primitive value'') (js ''API'')
   \<and> mainLogic opaqueMessageEnv samplePlatform
       = (None,
          [ListCalled (buildSearchParams defaultConfig),
           Emitted (TopError (js ''Cannot convert object to primitive value'')
                      (js ''An error occurred while processing. Falling back to demo mode.'')
                      defaultConfig (now samplePlatform))]
          @ demoEvents samplePlatform defaultConfig)"
proof -
  let ?t = "TypeError (js ''Cannot convert object to primitive value'')"
  have flav: "\<not> authFlavoured (message ?t)" "\<not> includes_str (message ?t) (js ''API'')"
    by (simp_all add: authFlavoured_def js_def)
  have accepts: "pushData opaqueMessageEnv tr r = None" for tr r
    using liveEnv_sink(4) by (simp add: acceptingSink_def)
  have live: "liveRun opaqueMessageEnv samplePlatform defaultConfig
                = (Some ?t, [ListCalled (buildSearchParams defaultConfig)])"
    using opaque_listing(1) by (rule liveRun_listing_fails)
  have "mainLogic opaqueMessageEnv samplePlatform
       = (None,
          [ListCalled (buildSearchParams defaultConfig),
           Emitted (TopError (js ''Cannot convert object to primitive value'')
                      (js ''An error occurred while processing. Falling back to demo mode.'')
                      defaultConfig (now samplePlatform))]
          @ demoEvents samplePlatform defaultConfig)"
    using flav(1)
    by (simp add: mainLogic_live_failure [OF liveEnv_input(4) liveEnv_key(4) live]
          push_def accepts runDemoMode_accepted)
  with opaque_listing(1) flav(2) show ?thesis by simp
qed

subsection \<open>The outer catch block\<close>

text \<open>
  C6. In a run with a credential and a sink that accepts what it is handed: when the listing
  raises an error whose message contains \<open>401\<close>, \<open>403\<close> or \<open>API\<close>, the run consists
  of the listing call and the demo fallback, which ends with the \<open>demo_summary\<close> record,
  and no record of type \<open>error\<close> is emitted; when the outer \<open>try\<close> block fails with a
  message that contains none of the three, one record of type \<open>error\<close> carrying the
  message and the Configuration is emitted first, and the demo fallback follows.
\<close>

theorem top_level_failure_fallback:
  assumes "validateInput P (orElse (getInput env) (JObj [])) = Inr cfg"
      and "truthy (orElse (envApiKey env) (getValue env))"
      and "acceptingSink env"
  shows "(getStatsList_result P
            (listResponse env [ListCalled (buildSearchParams cfg)] (buildSearchParams cfg)) = Inl e
          \<and> authFlavoured (message e)
          \<longrightarrow> mainLogic env P = (None, [ListCalled (buildSearchParams cfg)] @ demoEvents P cfg)
              \<and> (\<forall>ev \<in> set (snd (mainLogic env P)). \<forall>rec.
                    ev = Emitted rec \<longrightarrow> recordType rec \<noteq> Some (js ''error'')))
       \<and> (liveRun env P cfg = (Some e', tr) \<and> \<not> authFlavoured (message e')
          \<longrightarrow> mainLogic env P =
                (None, tr @ [Emitted (TopError (message e')
                                (js ''An error occurred while processing. Falling back to demo mode.'')
                                cfg (now P))]
                          @ demoEvents P cfg))
       \<and> recordType (TopError m t cfg x) = Some (js ''error'')
       \<and> (\<exists>n. last (demoEvents P cfg) = Emitted (demoSummary P cfg n))
       \<and> recordType (demoSummary P cfg n) = Some (js ''demo_summary'')"
proof (intro conjI impI)
  assume h: "getStatsList_result P
            (listResponse env [ListCalled (buildSearchParams cfg)] (buildSearchParams cfg)) = Inl e
          \<and> authFlavoured (message e)"
  then have "liveRun env P cfg = (Some e, [ListCalled (buildSearchParams cfg)])"
    by (simp add: liveRun_listing_fails)
  with h assms
  show run: "mainLogic env P = (None, [ListCalled (buildSearchParams cfg)] @ demoEvents P cfg)"
    by (simp add: mainLogic_live_failure runDemoMode_accepted)
  show "\<forall>ev \<in> set (snd (mainLogic env P)). \<forall>rec.
          ev = Emitted rec \<longrightarrow> recordType rec \<noteq> Some (js ''error'')"
    unfolding run by (auto simp: demoEvents_def demoSummary_def js_def)
next
  assume "liveRun env P cfg = (Some e', tr) \<and> \<not> authFlavoured (message e')"
  with assms
  show "mainLogic env P =
          (None, tr @ [Emitted (TopError (message e')
                          (js ''An error occurred while processing. Falling back to demo mode.'')
                          cfg (now P))]
                    @ demoEvents P cfg)"
    by (simp add: mainLogic_live_failure runDemoMode_accepted push_def acceptingSink_def)
qed (simp_all add: demoEvents_def demoSummary_def)

text \<open>
  A listing answered with HTTP 401 takes the first branch; a table list whose entry is
  \<open>null\<close> fails with a TypeError and takes the second.
\<close>

theorem top_level_failure_fallback_witness:
  "validateInput samplePlatform (orElse (getInput unauthorizedEnv) (JObj [])) = Inr defaultConfig
   \<and> truthy (orElse (envApiKey unauthorizedEnv) (getValue unauthorizedEnv))
   \<and> acceptingSink unauthorizedEnv
   \<and> authFlavoured (message (Error (js ''KOSIS API Error (getStatsList): Status 401 - Unauthorized'')))
   \<and> mainLogic unauthorizedEnv samplePlatform
       = (None, [ListCalled (buildSearchParams defaultConfig)] @ demoEvents samplePlatform defaultConfig)
   \<and> validateInput samplePlatform (orElse (getInput nullTableEnv) (JObj [])) = Inr defaultConfig
   \<and> truthy (orElse (envApiKey nullTableEnv) (getValue nullTableEnv))
   \<and> acceptingSink nullTableEnv
   \<and> \<not> authFlavoured (js ''Cannot read properties of null (reading '' @ [0x27] @ js ''TBL_ID'' @ [0x27] @ js '')'')
   \<and> mainLogic nullTableEnv samplePlatform
       = (None, [ListCalled (buildSearchParams defaultConfig)]
                @ [Emitted (TopError
                     (js ''Cannot read properties of null (reading '' @ [0x27] @ js ''TBL_ID'' @ [0x27] @ js '')'')
                     (js ''An error occurred while processing. Falling back to demo mode.'')
                     defaultConfig (now samplePlatform))]
                @ demoEvents samplePlatform defaultConfig)"
proof -
  let ?e = "Error (js ''KOSIS API Error (getStatsList): Status 401 - Unauthorized'')"
  let ?t = "TypeError (js ''Cannot read properties of null (reading '' @ [0x27] @ js ''TBL_ID'' @ [0x27] @ js '')'')"
  have a: "authFlavoured (message ?e)"
    by (simp add: authFlavoured_def js_def)
  have b: "\<not> authFlavoured (message ?t)"
    by (simp add: authFlavoured_def js_def)
  from top_level_failure_fallback [OF liveEnv_input(2) liveEnv_key(2) liveEnv_sink(2),
         where e = ?e and P = samplePlatform and e' = ?t and tr = "[]"] unauthorized_listing(1) a
  have 1: "mainLogic unauthorizedEnv samplePlatform
       = (None, [ListCalled (buildSearchParams defaultConfig)] @ demoEvents samplePlatform defaultConfig)"
    by blast
  from top_level_failure_fallback [OF liveEnv_input(3) liveEnv_key(3) liveEnv_sink(3),
         where e = ?e and P = samplePlatform and e' = ?t
           and tr = "[ListCalled (buildSearchParams defaultConfig)]"] nullTable_liveRun b
  have 2: "mainLogic nullTableEnv samplePlatform
       = (None, [ListCalled (buildSearchParams defaultConfig)]
                @ [Emitted (TopError (message ?t)
                     (js ''An error occurred while processing. Falling back to demo mode.'')
                     defaultConfig (now samplePlatform))]
                @ demoEvents samplePlatform defaultConfig)"
    by blast
  from 1 2 a b show ?thesis by simp
qed

subsection \<open>One table\<close>


lemma processTable_failure:
  assumes "processTableTry env P cfg table st = (Some e, st')"
      and "tableIdOf (processedTables st + 1) table = Inr tableId"
      and "printable tableId"
      and "pushData env (trace st') (TableError tableId (tableTitleOf table) (message e) (now P)) = None"
  shows "processTable env P cfg table st =
           (None, st'\<lparr>trace := trace st'
                        @ [Emitted (TableError tableId (tableTitleOf table) (message e) (now P))]\<rparr>)"
proof -
  from processTableTry_shape [OF assms(1)]
  have "processedTables st' = processedTables st + 1" by blast
  moreover from toStringJS_printable [OF assms(3)]
  obtain idText where "toStringJS P tableId = Inr idText" by blast
  ultimately show ?thesis using assms by (simp add: processTable_def push_def)
qed

lemma processTable_refused:
  assumes "processTableTry env P cfg table st = (Some e, st')"
      and "tableIdOf (processedTables st + 1) table = Inr tableId"
      and "printable tableId"
      and "pushData env (trace st') (TableError tableId (tableTitleOf table) (message e) (now P)) = Some m"
  shows "processTable env P cfg table st =
           (Some (Error m), st'\<lparr>trace := trace st'
                        @ [Refused (TableError tableId (tableTitleOf table) (message e) (now P))]\<rparr>)"
proof -
  from processTableTry_shape [OF assms(1)]
  have "processedTables st' = processedTables st + 1" by blast
  moreover from toStringJS_printable [OF assms(3)]
  obtain idText where "toStringJS P tableId = Inr idText" by blast
  ultimately show ?thesis using assms by (simp add: processTable_def push_def)
qed

lemma processTable_opaque:
  assumes "processTableTry env P cfg table st = (Some e, st')"
      and "tableIdOf (processedTables st + 1) table = Inr tableId"
      and "\<not> printable tableId"
  shows "processTable env P cfg table st =
           (Some (TypeError (js ''Cannot convert object to primitive value'')), st')"
proof -
  from processTableTry_shape [OF assms(1)]
  have "processedTables st' = processedTables st + 1" by blast
  with assms toStringJS_unprintable [OF assms(3), of P]
  show ?thesis by (simp add: processTable_def)
qed

text \<open>
  C5, as amended. When the \<open>try\<close> block of a table fails after the table's id was read
  (that is, at the progress line, at the data fetch, at the raw emit or at the emit of a
  normalized record), and the id can be converted to a string, the \<open>catch\<close> block hands
  the sink one record of type \<open>error\<close> with the table's id, its title and the error's
  message; no other record of that type belongs to this table. If the sink accepts it, the
  iteration returns normally and the loop goes on with the remaining tables. If the sink
  refuses it, the refusal leaves the loop and the remaining tables are not processed. When
  the id cannot be converted to a string (it is or contains an object with an own
  \<open>toString\<close> property), the progress line of the \<open>catch\<close> block throws before any
  record is handed to the sink, and that exception leaves the loop.
\<close>

theorem table_failure_is_isolated:
  assumes "processTableTry env P cfg table st = (Some e, st')"
      and "tableIdOf (processedTables st + 1) table = Inr tableId"
  shows "(printable tableId
          \<and> pushData env (trace st') (TableError tableId (tableTitleOf table) (message e) (now P)) = None
          \<longrightarrow> processTable env P cfg table st =
                (None, st'\<lparr>trace := trace st'
                        @ [Emitted (TableError tableId (tableTitleOf table) (message e) (now P))]\<rparr>)
              \<and> processTables env P cfg (table # rest) st =
                  processTables env P cfg rest
                    (st'\<lparr>trace := trace st'
                        @ [Emitted (TableError tableId (tableTitleOf table) (message e) (now P))]\<rparr>))
       \<and> (printable tableId
          \<and> pushData env (trace st') (TableError tableId (tableTitleOf table) (message e) (now P)) = Some m
          \<longrightarrow> processTables env P cfg (table # rest) st =
                (Some (Error m),
                 st'\<lparr>trace := trace st'
                        @ [Refused (TableError tableId (tableTitleOf table) (message e) (now P))]\<rparr>))
       \<and> (\<not> printable tableId
          \<longrightarrow> processTables env P cfg (table # rest) st =
                (Some (TypeError (js ''Cannot convert object to primitive value'')), st'))
       \<and> recordType (TableError tableId (tableTitleOf table) (message e) (now P)) = Some (js ''error'')
       \<and> (\<exists>evs. trace st' = trace st @ evs
              \<and> (\<forall>ev \<in> set evs. \<forall>rec. ev = Emitted rec \<or> ev = Refused rec
                    \<longrightarrow> recordType rec \<noteq> Some (js ''error'')))"
proof -
  from processTableTry_shape [OF assms(1)]
  obtain evs where evs: "list_all fetchEvent evs" "trace st' = trace st @ evs" by auto
  have "\<forall>ev \<in> set evs. \<forall>rec. ev = Emitted rec \<or> ev = Refused rec
          \<longrightarrow> recordType rec \<noteq> Some (js ''error'')"
    using evs(1) fetchEvent_not_error by (auto simp: list_all_iff)
  with evs(2) processTable_failure [OF assms] processTable_refused [OF assms]
       processTable_opaque [OF assms]
  show ?thesis by auto
qed

lemma sample_ids:
  "tableIdOf k tableT1 = Inr (JStr (js ''T1''))"
  "tableIdOf k tableT2 = Inr (JStr (js ''T2''))"
  "tableIdOf k tableOpaque = Inr (JObj [(js ''toString'', JNum (Finite 1))])"
  "tableTitleOf tableT1 = JStr (js ''Unknown Table'')"
  "tableTitleOf tableT2 = JStr (js ''Unknown Table'')"
  "tableTitleOf tableOpaque = JStr (js ''Unknown Table'')"
  by (simp_all add: tableIdOf_def tableTitleOf_def tableT1_def tableT2_def tableOpaque_def
        readProp_def getProp_def bindE_def orElse_def js_def truthyNum_def)

lemma firstFails_try:
  "processTableTry firstFailsEnv samplePlatform defaultConfig tableT1 listedState
   = (Some (Error (js ''KOSIS API Error (getStatsData for T1): No response received from server.'')),
      listedState\<lparr>processedTables := 1,
                  trace := [ListCalled (buildSearchParams defaultConfig),
                            DataCalled (JStr (js ''T1'')) (statsParamsOf tableT1)]\<rparr>)"
proof -
  have resp: "dataResponse firstFailsEnv tr (JStr (js ''T1'')) ps = Rejected NoResponse" for tr ps
    by (simp add: firstFailsEnv_def)
  show ?thesis
    unfolding processTableTry_def Let_def sample_ids
    by (simp add: resp getStatsData_result_def handleApiError_def listedState_def, simp add: js_def)
qed

lemma outage_push:
  "length (filter refusedEvent tr) < 2 \<Longrightarrow> pushData outageEnv tr r = Some (js ''sink unavailable'')"
  "\<not> length (filter refusedEvent tr) < 2 \<Longrightarrow> pushData outageEnv tr r = None"
  "dataResponse outageEnv tr i ps = Resolved (JArr [])"
  by (simp_all add: outageEnv_def liveEnv_def sampleEnv_def)

lemma outage_try:
  "processTableTry outageEnv samplePlatform rawConfig tableT1 listedState
   = (Some (Error (js ''sink unavailable'')),
      listedState\<lparr>processedTables := 1,
                  trace := [ListCalled (buildSearchParams defaultConfig),
                            DataCalled (JStr (js ''T1'')) (statsParamsOf tableT1),
                            Refused (RawRecord (JStr (js ''T1'')) tableT1
                                       (getMetaInfo samplePlatform (JStr (js ''T1'')))
                                       (JArr []) (now samplePlatform))]\<rparr>)"
proof -
  have raw: "outputFormat rawConfig = js ''raw''" "includeMetadata rawConfig"
    by (simp_all add: rawConfig_def defaultConfig_def)
  show ?thesis
    unfolding processTableTry_def Let_def sample_ids
    by (simp add: outage_push getStatsData_result_def isArray_def push_def raw listedState_def)
qed

lemma outage_opaque_try:
  "processTableTry outageEnv samplePlatform rawConfig tableOpaque listedState
   = (Some (Error (js ''sink unavailable'')),
      listedState\<lparr>processedTables := 1,
                  trace := [ListCalled (buildSearchParams defaultConfig),
                            DataCalled (JObj [(js ''toString'', JNum (Finite 1))])
                              (statsParamsOf tableOpaque),
                            Refused (RawRecord (JObj [(js ''toString'', JNum (Finite 1))]) tableOpaque
                                       (getMetaInfo samplePlatform
                                          (JObj [(js ''toString'', JNum (Finite 1))]))
                                       (JArr []) (now samplePlatform))]\<rparr>)"
proof -
  have raw: "outputFormat rawConfig = js ''raw''" "includeMetadata rawConfig"
    by (simp_all add: rawConfig_def defaultConfig_def)
  show ?thesis
    unfolding processTableTry_def Let_def sample_ids
    by (simp add: outage_push getStatsData_result_def isArray_def push_def raw listedState_def)
qed

text \<open>
  A data request that gets no response, on a sink that accepts the error record; a raw
  record refused by a sink that refuses the error record too; and the same refusal for a
  table whose id is the object \<open>{toString: 1}\<close>.
\<close>

theorem table_failure_is_isolated_witness:
  "processTableTry firstFailsEnv samplePlatform defaultConfig tableT1 listedState
     = (Some (Error (js ''KOSIS API Error (getStatsData for T1): No response received from server.'')),
        listedState\<lparr>processedTables := 1,
                    trace := [ListCalled (buildSearchParams defaultConfig),
                              DataCalled (JStr (js ''T1'')) (statsParamsOf tableT1)]\<rparr>)
   \<and> tableIdOf (processedTables listedState + 1) tableT1 = Inr (JStr (js ''T1''))
   \<and> printable (JStr (js ''T1''))
   \<and> processTable firstFailsEnv samplePlatform defaultConfig tableT1 listedState
     = (None,
        listedState\<lparr>processedTables := 1,
                    trace := [ListCalled (buildSearchParams defaultConfig),
                              DataCalled (JStr (js ''T1'')) (statsParamsOf tableT1),
                              Emitted (TableError (JStr (js ''T1'')) (JStr (js ''Unknown Table''))
                                (js ''KOSIS API Error (getStatsData for T1): No response received from server.'')
                                (now samplePlatform))]\<rparr>)
   \<and> processTableTry outageEnv samplePlatform rawConfig tableT1 listedState
     = (Some (Error (js ''sink unavailable'')),
        listedState\<lparr>processedTables := 1,
                    trace := [ListCalled (buildSearchParams defaultConfig),
                              DataCalled (JStr (js ''T1'')) (statsParamsOf tableT1),
                              Refused (RawRecord (JStr (js ''T1'')) tableT1
                                         (getMetaInfo samplePlatform (JStr (js ''T1'')))
                                         (JArr []) (now samplePlatform))]\<rparr>)
   \<and> processTables outageEnv samplePlatform rawConfig [tableT1, tableT2] listedState
     = (Some (Error (js ''sink unavailable'')),
        listedState\<lparr>processedTables := 1,
                    trace := [ListCalled (buildSearchParams defaultConfig),
                              DataCalled (JStr (js ''T1'')) (statsParamsOf tableT1),
                              Refused (RawRecord (JStr (js ''T1'')) tableT1
                                         (getMetaInfo samplePlatform (JStr (js ''T1'')))
                                         (JArr []) (now samplePlatform)),
                              Refused (TableError (JStr (js ''T1'')) (JStr (js ''Unknown Table''))
                                         (js ''sink unavailable'') (now samplePlatform))]\<rparr>)
   \<and> tableIdOf (processedTables listedState + 1) tableOpaque
       = Inr (JObj [(js ''toString'', JNum (Finite 1))])
   \<and> \<not> printable (JObj [(js ''toString'', JNum (Finite 1))])
   \<and> processTables outageEnv samplePlatform rawConfig [tableOpaque, tableT2] listedState
     = (Some (TypeError (js ''Cannot convert object to primitive value'')),
        listedState\<lparr>processedTables := 1,
                    trace := [ListCalled (buildSearchParams defaultConfig),
                              DataCalled (JObj [(js ''toString'', JNum (Finite 1))])
                                (statsParamsOf tableOpaque),
                              Refused (RawRecord (JObj [(js ''toString'', JNum (Finite 1))]) tableOpaque
                                         (getMetaInfo samplePlatform
                                            (JObj [(js ''toString'', JNum (Finite 1))]))
                                         (JArr []) (now samplePlatform))]\<rparr>)"
proof -
  note tid = sample_ids(1) [of "processedTables listedState + 1"] and title = sample_ids(4)
    and oid = sample_ids(3) [of "processedTables listedState + 1"]
  have pr: "printable (JStr (js ''T1''))" "\<not> printable (JObj [(js ''toString'', JNum (Finite 1))])"
    by simp_all
  have accepts: "pushData firstFailsEnv tr r = None" for tr r
    by (simp add: firstFailsEnv_def liveEnv_def sampleEnv_def)
  have refuses: "pushData outageEnv
                   [ListCalled (buildSearchParams defaultConfig),
                    DataCalled (JStr (js ''T1'')) (statsParamsOf tableT1),
                    Refused (RawRecord (JStr (js ''T1'')) tableT1
                               (getMetaInfo samplePlatform (JStr (js ''T1'')))
                               (JArr []) (now samplePlatform))] r
                 = Some (js ''sink unavailable'')" for r
    by (simp add: outage_push)
  from table_failure_is_isolated [OF firstFails_try tid, where rest = "[]"] accepts title pr(1)
  have 1: "processTable firstFailsEnv samplePlatform defaultConfig tableT1 listedState
     = (None,
        listedState\<lparr>processedTables := 1,
                    trace := [ListCalled (buildSearchParams defaultConfig),
                              DataCalled (JStr (js ''T1'')) (statsParamsOf tableT1),
                              Emitted (TableError (JStr (js ''T1'')) (JStr (js ''Unknown Table''))
                                (js ''KOSIS API Error (getStatsData for T1): No response received from server.'')
                                (now samplePlatform))]\<rparr>)"
    by simp
  from table_failure_is_isolated [OF outage_try tid, where rest = "[tableT2]"
         and m = "js ''sink unavailable''"]
       refuses title pr(1)
  have 2: "processTables outageEnv samplePlatform rawConfig [tableT1, tableT2] listedState
     = (Some (Error (js ''sink unavailable'')),
        listedState\<lparr>processedTables := 1,
                    trace := [ListCalled (buildSearchParams defaultConfig),
                              DataCalled (JStr (js ''T1'')) (statsParamsOf tableT1),
                              Refused (RawRecord (JStr (js ''T1'')) tableT1
                                         (getMetaInfo samplePlatform (JStr (js ''T1'')))
                                         (JArr []) (now samplePlatform)),
                              Refused (TableError (JStr (js ''T1'')) (JStr (js ''Unknown Table''))
                                         (js ''sink unavailable'') (now samplePlatform))]\<rparr>)"
    by simp
  from table_failure_is_isolated [OF outage_opaque_try oid, where rest = "[tableT2]"] pr(2)
  have 3: "processTables outageEnv samplePlatform rawConfig [tableOpaque, tableT2] listedState
     = (Some (TypeError (js ''Cannot convert object to primitive value'')),
        listedState\<lparr>processedTables := 1,
                    trace := [ListCalled (buildSearchParams defaultConfig),
                              DataCalled (JObj [(js ''toString'', JNum (Finite 1))])
                                (statsParamsOf tableOpaque),
                              Refused (RawRecord (JObj [(js ''toString'', JNum (Finite 1))]) tableOpaque
                                         (getMetaInfo samplePlatform
                                            (JObj [(js ''toString'', JNum (Finite 1))]))
                                         (JArr []) (now samplePlatform))]\<rparr>)"
    by blast
  from 1 2 3 firstFails_try outage_try tid oid pr show ?thesis by simp
qed

lemma demoData_four: "\<exists>a b c d. demoData P = [a, b, c, d]"
  by (simp add: demoData_def)

lemma outage_input:
  "validateInput P (orElse (getInput outageEnv) (JObj [])) = Inr rawConfig"
proof -
  let ?X = "[(js ''outputFormat'', JStr (js ''raw''))]"
  have inp: "orElse (getInput outageEnv) (JObj []) = JObj ?X"
    by (simp add: outageEnv_def liveEnv_def sampleEnv_def orElse_def)
  have h: "textOrAbsent (getProp (JObj ?X) (js ''searchKeyword''))"
          "textOrAbsent (getProp (JObj ?X) (js ''vwCd''))"
          "textOrAbsent (getProp (JObj ?X) (js ''parentId''))"
          "getProp (JObj ?X) (js ''maxItems'') = JUndefined"
          "getProp (JObj ?X) (js ''delayBetweenRequests'') = JUndefined"
    by (simp_all add: getProp_def js_def)
  show ?thesis
    unfolding inp validateInput_defaults [OF h] rawConfig_def defaultConfig_def
    by (simp add: getProp_def js_def trimOrValue_def)
qed

lemma two_tables:
  "lengthProp (JArr [a, b]) = JNum (Finite 2)"
  "tablesToProcess (JArr [a, b]) (Finite 10) = Inr [a, b]"
  by (simp_all add: lengthProp_def tablesToProcess_def sliceTo_def)

lemma outage_run:
  "mainLogic outageEnv samplePlatform
   = (None,
      [ListCalled (buildSearchParams rawConfig),
       DataCalled (JStr (js ''T1'')) (statsParamsOf tableT1),
       Refused (RawRecord (JStr (js ''T1'')) tableT1 (getMetaInfo samplePlatform (JStr (js ''T1'')))
                  (JArr []) (now samplePlatform)),
       Refused (TableError (JStr (js ''T1'')) (JStr (js ''Unknown Table'')) (js ''sink unavailable'')
                  (now samplePlatform)),
       Emitted (TopError (js ''sink unavailable'')
                  (js ''An error occurred while processing. Falling back to demo mode.'')
                  rawConfig (now samplePlatform))]
      @ demoEvents samplePlatform rawConfig)"
proof -
  obtain a b c d where pool: "demoData samplePlatform = [a, b, c, d]"
    using demoData_four by blast
  have key: "truthy (orElse (envApiKey outageEnv) (getValue outageEnv))"
    by (simp add: outageEnv_def liveEnv_def sampleEnv_def orElse_def js_def)
  have sel: "demoSelection samplePlatform rawConfig = [a, b, c, d]"
    by (simp add: demoSelection_def rawConfig_def defaultConfig_def sliceTo_def pool)
  have params: "buildSearchParams rawConfig = buildSearchParams defaultConfig"
    by (simp add: buildSearchParams_def rawConfig_def)
  have listing: "getStatsList_result samplePlatform
                   (listResponse outageEnv [ListCalled (buildSearchParams rawConfig)]
                      (buildSearchParams rawConfig)) = Inr (JArr [tableT1, tableT2])"
    by (simp add: outageEnv_def getStatsList_result_def isArray_def)
  have ten: "maxItems rawConfig = Finite 10" by (simp add: rawConfig_def defaultConfig_def)
  let ?st = "\<lparr>processedTables = 0, totalDataPoints = 0, allNormalizedData = [],
               trace = [ListCalled (buildSearchParams rawConfig)]\<rparr>"
  have st: "?st = listedState" by (simp add: listedState_def params)
  let ?tr = "[ListCalled (buildSearchParams rawConfig),
          DataCalled (JStr (js ''T1'')) (statsParamsOf tableT1),
          Refused (RawRecord (JStr (js ''T1'')) tableT1 (getMetaInfo samplePlatform (JStr (js ''T1'')))
                     (JArr []) (now samplePlatform)),
          Refused (TableError (JStr (js ''T1'')) (JStr (js ''Unknown Table'')) (js ''sink unavailable'')
                     (now samplePlatform))]"
  have refuses: "pushData outageEnv
                   [ListCalled (buildSearchParams defaultConfig),
                    DataCalled (JStr (js ''T1'')) (statsParamsOf tableT1),
                    Refused (RawRecord (JStr (js ''T1'')) tableT1
                               (getMetaInfo samplePlatform (JStr (js ''T1'')))
                               (JArr []) (now samplePlatform))] r
                 = Some (js ''sink unavailable'')" for r
    by (simp add: outage_push)
  have one: "processTable outageEnv samplePlatform rawConfig tableT1 listedState
      = (Some (Error (js ''sink unavailable'')), listedState\<lparr>processedTables := 1, trace := ?tr\<rparr>)"
    by (simp add: processTable_def outage_try sample_ids push_def outage_push params)
  have live: "liveRun outageEnv samplePlatform rawConfig = (Some (Error (js ''sink unavailable'')), ?tr)"
    unfolding liveRun_def Let_def listing ten st
    by (simp add: two_tables one)
  have flav: "\<not> authFlavoured (js ''sink unavailable'')"
    by (simp add: authFlavoured_def js_def)
  let ?top = "TopError (js ''sink unavailable'')
                  (js ''An error occurred while processing. Falling back to demo mode.'')
                  rawConfig (now samplePlatform)"
  have top: "push outageEnv ?top ?tr = (None, ?tr @ [Emitted ?top])"
    by (simp add: push_def outage_push)
  have demo: "runDemoMode outageEnv samplePlatform rawConfig (?tr @ [Emitted ?top])
                = (None, (?tr @ [Emitted ?top]) @ demoEvents samplePlatform rawConfig)"
    by (simp add: runDemoMode_def demoEvents_def sel push_def Let_def outage_push)
  show ?thesis
    using flav top demo by (simp add: mainLogic_live_failure [OF outage_input key live])
qed

text \<open>
  C5, as stated, fails: when the sink refuses the raw record of the first table and then
  the error record too, the exception leaves the loop, the second table is never fetched,
  and the run ends in the outer \<open>catch\<close> block.
\<close>

theorem sink_outage_aborts_the_loop:
  "mainLogic outageEnv samplePlatform
   = (None,
      [ListCalled (buildSearchParams rawConfig),
       DataCalled (JStr (js ''T1'')) (statsParamsOf tableT1),
       Refused (RawRecord (JStr (js ''T1'')) tableT1 (getMetaInfo samplePlatform (JStr (js ''T1'')))
                  (JArr []) (now samplePlatform)),
       Refused (TableError (JStr (js ''T1'')) (JStr (js ''Unknown Table'')) (js ''sink unavailable'')
                  (now samplePlatform)),
       Emitted (TopError (js ''sink unavailable'')
                  (js ''An error occurred while processing. Falling back to demo mode.'')
                  rawConfig (now samplePlatform))]
      @ demoEvents samplePlatform rawConfig)
   \<and> DataCalled (JStr (js ''T2'')) (statsParamsOf tableT2) \<notin> set (snd (mainLogic outageEnv samplePlatform))"
  unfolding outage_run
  by (simp add: demoEvents_def js_def image_iff)

subsection \<open>The pause between tables\<close>










end
